theory Spec2Isabelle
  imports Complex_Main "HOL-Library.Char_ord" "HOL-Library.List_Lexorder"
begin

section \<open>Go values used by the scraper\<close>

text \<open>
  Go's \<open>int\<close> is 64 bits wide on the platforms the program is built for, and the
  width is part of the model: \<open>int64\<close> wraps a mathematical integer into the two's
  complement range, as Go's \<open>+\<close>, \<open>*\<close> and \<open>++\<close> do. Every sum and product the
  program computes on an \<open>int\<close> is wrapped: the seconds of a time, the event number and
  the error counter of the ingest loop, the sum of the two central times of a median.
  The row ids are SQLite's own and are handed out by SQLite, not computed in Go; a length
  or a count of rows is the number of elements of a list in memory.
\<close>

definition maxInt64 :: int where
  "maxInt64 = 9223372036854775807"

definition maxUint64 :: nat where
  "maxUint64 = 18446744073709551615"

definition int64 :: "int \<Rightarrow> int" where
  "int64 x = (x + 9223372036854775808) mod 18446744073709551616 - 9223372036854775808"

text \<open>The values an \<open>int\<close> holds: those that \<open>int64\<close> leaves as they are.\<close>

definition is_int64 :: "int \<Rightarrow> bool" where
  "is_int64 x = (- maxInt64 - 1 \<le> x \<and> x \<le> maxInt64)"

text \<open>Go's \<open>/\<close> and \<open>%\<close> on integers truncate towards zero.\<close>

definition go_div :: "int \<Rightarrow> int \<Rightarrow> int" where
  "go_div a b = sgn a * sgn b * (\<bar>a\<bar> div \<bar>b\<bar>)"

definition go_mod :: "int \<Rightarrow> int \<Rightarrow> int" where
  "go_mod a b = a - b * go_div a b"

text \<open>
  Errors are values. \<open>HTTPError\<close> is the struct of parser.go; \<open>Errorf\<close> stands for an
  error built by \<open>fmt.Errorf\<close> and carries the fixed part of its message;
  \<open>ErrNoRows\<close> is \<open>sql.ErrNoRows\<close>; \<open>DriverError\<close> is any other error the
  database driver returns.
\<close>

datatype error =
    HTTPError (StatusCode: int) (Message: string)
  | Errorf string
  | ErrNoRows
  | DriverError

subsection \<open>strconv.Atoi\<close>

datatype NumError = ErrSyntax | ErrRange

definition is_digit :: "char \<Rightarrow> bool" where
  "is_digit c = (CHR ''0'' \<le> c \<and> c \<le> CHR ''9'')"

definition digit_val :: "char \<Rightarrow> nat" where
  "digit_val c = of_char c - 48"

text \<open>
  The digit loop of \<open>strconv.ParseUint\<close> for base 10 and 64 bits: a byte that is not a
  digit is a syntax error with value 0; a value that leaves the unsigned range is a range
  error with the largest value, reported at the digit where it happens.
\<close>

fun ParseUint_loop :: "nat \<Rightarrow> string \<Rightarrow> nat \<times> NumError option" where
  "ParseUint_loop n [] = (n, None)"
| "ParseUint_loop n (c # cs) =
     (if \<not> is_digit c then (0, Some ErrSyntax)
      else if n \<ge> maxUint64 div 10 + 1 then (maxUint64, Some ErrRange)
      else if n * 10 + digit_val c > maxUint64 then (maxUint64, Some ErrRange)
      else ParseUint_loop (n * 10 + digit_val c) cs)"

definition ParseUint :: "string \<Rightarrow> nat \<times> NumError option" where
  "ParseUint s = (if s = [] then (0, Some ErrSyntax) else ParseUint_loop 0 s)"

text \<open>
  \<open>strconv.ParseInt(s, 10, 0)\<close>: an optional sign is picked off, then
  \<open>ParseInt_range\<close> converts the rest with \<open>ParseUint\<close> and checks the signed range. A
  syntax error gives 0, a magnitude outside the range gives the nearest bound and a range
  error.
\<close>

definition ParseInt_range :: "bool \<Rightarrow> string \<Rightarrow> int \<times> NumError option" where
  "ParseInt_range neg s =
     (case ParseUint s of
        (un, Some ErrSyntax) \<Rightarrow> (0, Some ErrSyntax)
      | (un, _) \<Rightarrow>
          if \<not> neg \<and> int un \<ge> maxInt64 + 1 then (maxInt64, Some ErrRange)
          else if neg \<and> int un > maxInt64 + 1 then (- maxInt64 - 1, Some ErrRange)
          else (if neg then - int un else int un, None))"

definition ParseInt :: "string \<Rightarrow> int \<times> NumError option" where
  "ParseInt s =
     (if s = [] then (0, Some ErrSyntax)
      else if hd s = CHR ''+'' then ParseInt_range False (tl s)
      else if hd s = CHR ''-'' then ParseInt_range True (tl s)
      else ParseInt_range False s)"

text \<open>
  \<open>strconv.Atoi\<close> has a fast path for short inputs that computes the same value and the
  same error as \<open>ParseInt(s, 10, 0)\<close>, which it calls for the others.
\<close>

definition Atoi :: "string \<Rightarrow> int \<times> NumError option" where
  "Atoi s = ParseInt s"

subsection \<open>strings.Split, strings.Contains, strings.TrimSpace\<close>

text \<open>
  \<open>strings.Split(s, sep)\<close> for a separator of one byte, which is what both call sites
  pass. The result is never empty: a text without the separator is its own single part.
\<close>

fun Split :: "string \<Rightarrow> char \<Rightarrow> string list" where
  "Split [] sep = [[]]"
| "Split (c # cs) sep =
     (if c = sep then [] # Split cs sep
      else (case Split cs sep of
              p # ps \<Rightarrow> (c # p) # ps
            | [] \<Rightarrow> [[c]]))"

fun Contains :: "string \<Rightarrow> string \<Rightarrow> bool" where
  "Contains [] substr = (substr = [])"
| "Contains (c # cs) substr =
     (take (length substr) (c # cs) = substr \<or> Contains cs substr)"

text \<open>
  \<open>strings.TrimSpace\<close> removes the leading and the trailing white space that
  \<open>unicode.IsSpace\<close> knows. A text is a list of bytes, so a space is the UTF-8 encoding
  of one of these code points: the six of ASCII (tab, line feed, vertical tab, form feed,
  carriage return, space), in two bytes U+0085 and U+00A0, in three bytes U+1680, U+2000
  to U+200A, U+2028, U+2029, U+202F, U+205F and U+3000. A byte that starts no such
  encoding ends the trimming (a malformed sequence decodes to U+FFFD, which is no space).
\<close>

definition is_space :: "char \<Rightarrow> bool" where
  "is_space c = (c \<in> set [CHR 0x09, CHR 0x0A, CHR 0x0B, CHR 0x0C, CHR 0x0D, CHR 0x20])"

definition is_space2 :: "char \<Rightarrow> char \<Rightarrow> bool" where
  "is_space2 b1 b2 = (b1 = CHR 0xC2 \<and> (b2 = CHR 0x85 \<or> b2 = CHR 0xA0))"

definition is_space3 :: "char \<Rightarrow> char \<Rightarrow> char \<Rightarrow> bool" where
  "is_space3 b1 b2 b3 =
     ((b1 = CHR 0xE1 \<and> b2 = CHR 0x9A \<and> b3 = CHR 0x80)
      \<or> (b1 = CHR 0xE2 \<and> b2 = CHR 0x80
           \<and> ((CHR 0x80 \<le> b3 \<and> b3 \<le> CHR 0x8A) \<or> b3 = CHR 0xA8 \<or> b3 = CHR 0xA9
                \<or> b3 = CHR 0xAF))
      \<or> (b1 = CHR 0xE2 \<and> b2 = CHR 0x81 \<and> b3 = CHR 0x9F)
      \<or> (b1 = CHR 0xE3 \<and> b2 = CHR 0x80 \<and> b3 = CHR 0x80))"

text \<open>
  \<open>trim_runes\<close> drops spaces from the front of a list of bytes. With \<open>back\<close> set the
  list is a text read from its end, and the bytes of an encoding come in reverse order:
  that is \<open>TrimRightFunc\<close>, which decodes the last rune of the text.
\<close>

fun trim_runes :: "bool \<Rightarrow> string \<Rightarrow> string" where
  "trim_runes back (b1 # b2 # b3 # bs) =
     (if is_space b1 then trim_runes back (b2 # b3 # bs)
      else if (if back then is_space2 b2 b1 else is_space2 b1 b2) then trim_runes back (b3 # bs)
      else if (if back then is_space3 b3 b2 b1 else is_space3 b1 b2 b3) then trim_runes back bs
      else b1 # b2 # b3 # bs)"
| "trim_runes back [b1, b2] =
     (if is_space b1 then trim_runes back [b2]
      else if (if back then is_space2 b2 b1 else is_space2 b1 b2) then []
      else [b1, b2])"
| "trim_runes back [b1] = (if is_space b1 then [] else [b1])"
| "trim_runes back [] = []"

definition TrimSpace :: "string \<Rightarrow> string" where
  "TrimSpace s = rev (trim_runes True (rev (trim_runes False s)))"

section \<open>parser.go\<close>

subsection \<open>timeToSeconds\<close>

text \<open>
  \<open>timeToSeconds\<close> returns \<open>(0, err)\<close> on every failure, so the pair is a sum here.
  The arithmetic is Go's: each product and sum wraps to 64 bits.
\<close>

definition timeToSeconds :: "string \<Rightarrow> error + int" where
  "timeToSeconds timeStr =
     (if timeStr = [] \<or> timeStr = ''Unknown'' then Inr 0
      else
        (case Split timeStr CHR '':'' of
           [p0, p1] \<Rightarrow>
             (case Atoi p0 of
                (minutes, Some e) \<Rightarrow> Inl (Errorf ''invalid minutes'')
              | (minutes, None) \<Rightarrow>
                  (case Atoi p1 of
                     (seconds, Some e) \<Rightarrow> Inl (Errorf ''invalid seconds'')
                   | (seconds, None) \<Rightarrow> Inr (int64 (int64 (minutes * 60) + seconds))))
         | [p0, p1, p2] \<Rightarrow>
             (case Atoi p0 of
                (hours, Some e) \<Rightarrow> Inl (Errorf ''invalid hours'')
              | (hours, None) \<Rightarrow>
                  (case Atoi p1 of
                     (minutes, Some e) \<Rightarrow> Inl (Errorf ''invalid minutes'')
                   | (minutes, None) \<Rightarrow>
                       (case Atoi p2 of
                          (seconds, Some e) \<Rightarrow> Inl (Errorf ''invalid seconds'')
                        | (seconds, None) \<Rightarrow>
                            Inr (int64 (int64 (int64 (hours * 3600) + int64 (minutes * 60))
                                        + seconds)))))
         | _ \<Rightarrow> Inl (Errorf ''invalid time format'')))"

text \<open>
  The readings of the specification: a segment that is a non-negative integer is a
  non-empty run of decimal digits, and \<open>dec_value\<close> is the number it writes.
\<close>

definition is_decimal :: "string \<Rightarrow> bool" where
  "is_decimal s = (s \<noteq> [] \<and> list_all is_digit s)"

definition dec_acc :: "nat \<Rightarrow> string \<Rightarrow> nat" where
  "dec_acc n s = foldl (\<lambda>n c. n * 10 + digit_val c) n s"

definition dec_value :: "string \<Rightarrow> nat" where
  "dec_value s = dec_acc 0 s"


text \<open>
  What \<open>strconv.Atoi\<close> accepts, written without reference to its loop: an optional sign
  and a non-empty run of decimal digits whose value fits 64 bits.
\<close>

definition is_int_literal :: "string \<Rightarrow> bool" where
  "is_int_literal s =
     (case s of
        [] \<Rightarrow> False
      | c # cs \<Rightarrow>
          if c = CHR ''+'' then is_decimal cs \<and> int (dec_value cs) \<le> maxInt64
          else if c = CHR ''-'' then is_decimal cs \<and> int (dec_value cs) \<le> maxInt64 + 1
          else is_decimal s \<and> int (dec_value s) \<le> maxInt64)"

text \<open>The inputs the specification admits besides the empty text and the placeholder.\<close>

definition spec_time_text :: "string \<Rightarrow> bool" where
  "spec_time_text s =
     (s = [] \<or> s = ''Unknown'' \<or>
      (length (Split s CHR '':'') \<in> {2, 3} \<and> list_all is_decimal (Split s CHR '':'')))"

subsection \<open>Decimal rendering (the \<open>%d\<close> and \<open>%02d\<close> verbs of fmt)\<close>

fun digits_of :: "nat \<Rightarrow> string" where
  "digits_of n =
     (if n < 10 then [''0123456789'' ! n]
      else digits_of (n div 10) @ [''0123456789'' ! (n mod 10)])"

declare digits_of.simps [simp del]

lemma digits_of_numeral [simp]:
  "digits_of (numeral k) =
     (if (numeral k :: nat) < 10 then [''0123456789'' ! numeral k]
      else digits_of (numeral k div 10) @ [''0123456789'' ! (numeral k mod 10)])"
  by (subst digits_of.simps) simp

lemma digits_of_small [simp]: "digits_of 0 = ''0''" "digits_of (Suc 0) = ''1''"
  by (simp_all add: digits_of.simps)

definition Itoa :: "int \<Rightarrow> string" where
  "Itoa i = (if i < 0 then CHR ''-'' # digits_of (nat (- i)) else digits_of (nat i))"

text \<open>\<open>%02d\<close>: the rendering is padded with zeros to a width of two, sign included.\<close>

definition pad2 :: "int \<Rightarrow> string" where
  "pad2 i = (if length (Itoa i) < 2 then CHR ''0'' # Itoa i else Itoa i)"

subsection \<open>The structs of parser.go\<close>

text \<open>
  \<open>time.Time\<close> as the scraper uses it: a calendar date (every value it builds is a
  midnight in UTC). The zero value is 1 January of year 1.
\<close>

datatype time = MkTime (year: int) (month: int) (day: int)

definition zero_time :: time where
  "zero_time = MkTime 1 1 1"

record Result =
  Position :: int
  Name :: string
  Time :: string
  TimeSeconds :: int
  AgeGrade :: string
  AgeCategory :: string
  Note :: string
  TotalRuns :: int
  EventID :: int

record Event =
  EventNumber :: int
  LocationID :: int
  Date :: time
  URL :: string

subsection \<open>What the page gives: the reply to one GET\<close>

text \<open>
  The HTML library hands \<open>scrapeEvent\<close> the text of the date header and, for every
  element of class \<open>Results-table-row\<close> in document order, its data attributes (absent
  or present) and the text of its time cell and of its first \<open>detailed\<close> element.
\<close>

record html_row =
  data_position :: "string option"
  data_name :: "string option"
  data_agegroup :: "string option"
  time_compact :: string
  detailed :: string
  data_agegrade :: "string option"
  data_achievement :: "string option"

record document =
  format_date :: string
  table_rows :: "html_row list"

text \<open>
  The reply to the request: the request could not be built, the transport failed, or a
  status code came back with a body that the HTML library read (\<open>Some\<close>) or not.
\<close>

datatype http_reply =
    RequestError
  | TransportError
  | Response int "document option"

definition AttrOr :: "string option \<Rightarrow> string \<Rightarrow> string" where
  "AttrOr a d = (case a of None \<Rightarrow> d | Some v \<Rightarrow> v)"

subsection \<open>parseEventDate\<close>

text \<open>
  \<open>time.Parse\<close> is a parameter \<open>tp\<close> of the model (layout, then text): the functions
  below try the layouts in the order of the source and do nothing else with it.
\<close>

type_synonym time_parser = "string \<Rightarrow> string \<Rightarrow> time option"

definition parseEventDate :: "time_parser \<Rightarrow> string \<Rightarrow> error + time" where
  "parseEventDate tp dateText =
     (let dateText = TrimSpace dateText in
      case tp ''02/01/2006'' dateText of
        Some date \<Rightarrow> Inr date
      | None \<Rightarrow>
          (case tp ''2/1/06'' dateText of
             Some date \<Rightarrow> Inr date
           | None \<Rightarrow>
               (case tp ''2/1/2006'' dateText of
                  Some date \<Rightarrow> Inr date
                | None \<Rightarrow> Inl (Errorf ''parsing time''))))"

subsection \<open>scrapeEvent\<close>

text \<open>
  The body of the closure that \<open>scrapeEvent\<close> runs on every row: \<open>Some\<close> is the result
  it appends, \<open>None\<close> is the early return that counts the row as skipped. The position
  and the run count take the value \<open>strconv.Atoi\<close> returns, its error ignored.
\<close>

definition scrape_row :: "html_row \<Rightarrow> Result option" where
  "scrape_row s =
     (let position = fst (Atoi (AttrOr (data_position s) ''0''));
          name = AttrOr (data_name s) [];
          ageGroup = AttrOr (data_agegroup s) [];
          timeCell = time_compact s;
          runsText = detailed s;
          totalRuns = (if Contains runsText ''parkrun''
                       then fst (Atoi (hd (Split runsText CHR '' ''))) else 0);
          ageGrade = AttrOr (data_agegrade s) [];
          achievement = AttrOr (data_achievement s) [];
          time = TrimSpace timeCell
      in case (if name \<noteq> ''Unknown'' then timeToSeconds time else Inr 0) of
           Inl err \<Rightarrow> None
         | Inr timeSeconds \<Rightarrow>
             Some \<lparr>Position = position, Name = name, Time = time, TimeSeconds = timeSeconds,
                   AgeGrade = ageGrade, AgeCategory = ageGroup, Note = achievement,
                   TotalRuns = totalRuns, EventID = 0\<rparr>)"

text \<open>
  \<open>resultRows.Each\<close>: the results appended, and the two counters that the function logs
  as "Processed n rows, skipped m invalid rows".
\<close>

fun scrape_rows :: "html_row list \<Rightarrow> Result list \<times> nat \<times> nat" where
  "scrape_rows [] = ([], 0, 0)"
| "scrape_rows (s # ss) =
     (case scrape_rows ss of
        (results, processedRows, skippedRows) \<Rightarrow>
          (case scrape_row s of
             None \<Rightarrow> (results, processedRows, Suc skippedRows)
           | Some result \<Rightarrow> (result # results, Suc processedRows, skippedRows)))"

record scraped =
  scraped_event :: Event
  scraped_results :: "Result list"
  processedRows :: nat
  skippedRows :: nat

definition scrapeEvent ::
  "time_parser \<Rightarrow> http_reply \<Rightarrow> string \<Rightarrow> int \<Rightarrow> error + scraped" where
  "scrapeEvent tp reply url eventNumber =
     (case reply of
        RequestError \<Rightarrow> Inl (Errorf ''failed to create request'')
      | TransportError \<Rightarrow> Inl (Errorf ''failed to make HTTP request'')
      | Response status body \<Rightarrow>
          if status \<ge> 400 then Inl (HTTPError status ''HTTP error'')
          else
            (case body of
               None \<Rightarrow> Inl (Errorf ''failed to parse HTML'')
             | Some doc \<Rightarrow>
                 (let eventDate = (case parseEventDate tp (format_date doc) of
                                     Inl err \<Rightarrow> zero_time
                                   | Inr date \<Rightarrow> date);
                      event = \<lparr>EventNumber = eventNumber, LocationID = 0,
                               Date = eventDate, URL = url\<rparr>
                  in case scrape_rows (table_rows doc) of
                       (results, processed, skipped) \<Rightarrow>
                         Inr \<lparr>scraped_event = event, scraped_results = results,
                              processedRows = processed, skippedRows = skipped\<rparr>)))"

definition ParseResults ::
  "time_parser \<Rightarrow> http_reply \<Rightarrow> string \<Rightarrow> int \<Rightarrow> error + scraped" where
  "ParseResults tp reply urlSlug eventNumber =
     scrapeEvent tp reply
       (''https://www.parkrun.com.au/'' @ urlSlug @ ''/results/'' @ Itoa eventNumber @ ''/'')
       eventNumber"

section \<open>db.go\<close>

subsection \<open>The three tables\<close>

text \<open>
  The SQLite file as \<open>CreateTables\<close> lays it out: one list of rows per table, in
  insertion order, and per table the largest row id ever handed out (SQLite keeps it for
  an \<open>AUTOINCREMENT\<close> key). A column that may be NULL is an \<open>option\<close>. The \<open>date\<close>
  column holds the text the driver wrote. A statement reads and writes these lists and
  nothing else; foreign keys are declared but SQLite does not enforce them unless asked,
  and the program never asks.
\<close>

record location_row =
  loc_id :: int
  slug :: string
  loc_name :: "string option"
  country :: string

record event_row =
  ev_id :: int
  event_number :: int
  location_id :: int
  date :: string
  url :: string

record result_row =
  res_id :: int
  position :: int
  name :: string
  time_seconds :: "int option"
  age_grade :: "string option"
  age_category :: "string option"
  res_note :: "string option"
  total_runs :: "int option"
  event_id :: "int option"

record database =
  locations_tbl :: "location_row list"
  events_tbl :: "event_row list"
  results_tbl :: "result_row list"
  seq_locations :: int
  seq_events :: int
  seq_results :: int

definition empty_database :: database where
  "empty_database =
     \<lparr>locations_tbl = [], events_tbl = [], results_tbl = [],
      seq_locations = 0, seq_events = 0, seq_results = 0\<rparr>"

text \<open>
  The row id an \<open>AUTOINCREMENT\<close> key gives a new row: one more than the largest id the
  table has now or ever had.
\<close>

definition next_rowid :: "int \<Rightarrow> int list \<Rightarrow> int" where
  "next_rowid seq ids = fold max ids seq + 1"

text \<open>
  The text the driver stores for a \<open>time.Time\<close>: layout
  \<open>2006-01-02 15:04:05.999999999-07:00\<close>, here always a midnight in UTC.
\<close>

definition pad4 :: "int \<Rightarrow> string" where
  "pad4 i =
     (if length (Itoa i) = 1 then ''000'' @ Itoa i
      else if length (Itoa i) = 2 then ''00'' @ Itoa i
      else if length (Itoa i) = 3 then ''0'' @ Itoa i
      else Itoa i)"

definition format_timestamp :: "time \<Rightarrow> string" where
  "format_timestamp t =
     pad4 (year t) @ ''-'' @ pad2 (month t) @ ''-'' @ pad2 (day t) @ '' 00:00:00+00:00''"

subsection \<open>The queries and the driver\<close>

text \<open>
  Every query the program sends may come back with an error from the driver (a locked
  or unreadable database file, a closed connection). The parameter \<open>qf\<close> of the
  functions below says for which query that happens: one name per query of the source,
  and one for the \<open>rows.Scan\<close> of each query that is read row by row.
\<close>

datatype query =
    InsertLocation | LocationBySlug | AvailableLocations | MaxEventNumber
  | TopParticipants | TopParticipantsScan | CategoryTimes | CategoryTimesScan
  | EventDates | BiggestEvent | SmallestEvent | EventCount | RunnerCount | AvgParticipants

subsection \<open>StoreEvent\<close>

text \<open>
  \<open>INSERT OR REPLACE INTO events\<close>: SQLite deletes the rows that collide with the new
  one on \<open>UNIQUE(event_number, location_id)\<close>, then inserts the new row under a fresh
  row id, which \<open>LastInsertId\<close> returns. \<open>exec_fails\<close> says that the driver reports an
  error for the statement (a locked or full database file); the tables are then as
  before.
\<close>

definition StoreEvent :: "database \<Rightarrow> bool \<Rightarrow> Event \<Rightarrow> (error + int) \<times> database" where
  "StoreEvent db exec_fails event =
     (if exec_fails then (Inl DriverError, db)
      else
        let new_id = next_rowid (seq_events db) (map ev_id (events_tbl db));
            kept = filter (\<lambda>e. \<not> (event_number e = EventNumber event \<and>
                                     location_id e = LocationID event)) (events_tbl db);
            row = \<lparr>ev_id = new_id, event_number = EventNumber event,
                    location_id = LocationID event,
                    date = format_timestamp (Date event), url = URL event\<rparr>
        in (Inr new_id, db\<lparr>events_tbl := kept @ [row], seq_events := new_id\<rparr>))"

subsection \<open>StoreResults\<close>

text \<open>
  One \<open>INSERT OR REPLACE INTO results\<close>: the rows that collide on
  \<open>UNIQUE(position, event_id)\<close> are deleted and the new row is inserted under a fresh
  row id. A time of zero or less is stored as NULL.
\<close>

definition insert_result :: "database \<Rightarrow> Result \<Rightarrow> int \<Rightarrow> database" where
  "insert_result db result eventID =
     (let timeSeconds = (if TimeSeconds result > 0 then Some (TimeSeconds result) else None);
          new_id = next_rowid (seq_results db) (map res_id (results_tbl db));
          kept = filter (\<lambda>r. \<not> (position r = Position result \<and> event_id r = Some eventID))
                   (results_tbl db);
          row = \<lparr>res_id = new_id, position = Position result, name = Name result,
                  time_seconds = timeSeconds, age_grade = Some (AgeGrade result),
                  age_category = Some (AgeCategory result), res_note = Some (Note result),
                  total_runs = Some (TotalRuns result), event_id = Some eventID\<rparr>
      in db\<lparr>results_tbl := kept @ [row], seq_results := new_id\<rparr>)"

text \<open>
  The loop of \<open>StoreResults\<close>. \<open>failing\<close> lists the indices of the rows for which the
  driver reports an error; such a row is counted and the loop goes on. The function
  returns nothing in Go: the two counters are what it logs.
\<close>

fun StoreResults_loop ::
  "nat list \<Rightarrow> nat \<Rightarrow> database \<times> nat \<times> nat \<Rightarrow> Result list \<Rightarrow> int \<Rightarrow> database \<times> nat \<times> nat" where
  "StoreResults_loop failing i (db, successCount, errorCount) [] eventID =
     (db, successCount, errorCount)"
| "StoreResults_loop failing i (db, successCount, errorCount) (result # rest) eventID =
     (if i \<in> set failing
      then StoreResults_loop failing (Suc i) (db, successCount, Suc errorCount) rest eventID
      else StoreResults_loop failing (Suc i)
             (insert_result db result eventID, Suc successCount, errorCount) rest eventID)"

definition StoreResults ::
  "database \<Rightarrow> nat list \<Rightarrow> Result list \<Rightarrow> int \<Rightarrow> database \<times> nat \<times> nat" where
  "StoreResults db failing results eventID =
     StoreResults_loop failing 0 (db, 0, 0) results eventID"

subsection \<open>GetNextEventNumber\<close>

text \<open>
  \<open>SELECT COALESCE(MAX(event_number), 0) FROM events WHERE location_id = ?\<close>: the
  query returns one row whenever the driver answers it, and an error otherwise. On the
  error the function logs "starting from 1" and returns 1; otherwise it returns
  \<open>eventID + 1\<close>, an addition on a Go \<open>int\<close>.
\<close>

definition select_max_event_number ::
  "database \<Rightarrow> (query \<Rightarrow> bool) \<Rightarrow> int \<Rightarrow> error + int" where
  "select_max_event_number db qf locationID =
     (if qf MaxEventNumber then Inl DriverError
      else
        case map event_number (filter (\<lambda>e. location_id e = locationID) (events_tbl db)) of
          [] \<Rightarrow> Inr 0
        | n # ns \<Rightarrow> Inr (fold max ns n))"

definition GetNextEventNumber :: "database \<Rightarrow> (query \<Rightarrow> bool) \<Rightarrow> int \<Rightarrow> int" where
  "GetNextEventNumber db qf locationID =
     (case select_max_event_number db qf locationID of
        Inl err \<Rightarrow> 1
      | Inr eventID \<Rightarrow> int64 (eventID + 1))"

text \<open>
  An earlier revision of \<open>main.go\<close> (part_002, lines 196 to 207) has the function as
  \<open>getNextEventNumber\<close>, with \<open>COALESCE(MAX(event_number), 1)\<close> in the query: for
  a location without events the query returns 1 and the function 2. The revision modelled
  above is the one of the repository's \<open>db.go\<close>.
\<close>

definition getNextEventNumber :: "database \<Rightarrow> (query \<Rightarrow> bool) \<Rightarrow> int \<Rightarrow> int" where
  "getNextEventNumber db qf locationID =
     (if qf MaxEventNumber then 1
      else
        case map event_number (filter (\<lambda>e. location_id e = locationID) (events_tbl db)) of
          [] \<Rightarrow> int64 (1 + 1)
        | n # ns \<Rightarrow> int64 (fold max ns n + 1))"

subsection \<open>ClearLocationData\<close>

text \<open>
  The statements \<open>ClearLocationData\<close> sends, in the order it sends them. The parameter
  \<open>fails\<close> says for which of them the driver reports an error. The statements of a
  transaction work on a copy of the tables; \<open>Commit\<close> installs the copy, \<open>Rollback\<close>
  drops it, and a \<open>Commit\<close> that fails is rolled back by the driver. The function
  returns its error, the tables afterwards and the statements it sent.
\<close>

datatype stmt =
    SelectLocation | Begin | DeleteResults | DeleteEvents | DeleteLocation | Commit | Rollback

definition select_location_id :: "database \<Rightarrow> string \<Rightarrow> error + int" where
  "select_location_id db urlSlug =
     (case filter (\<lambda>l. slug l = urlSlug) (locations_tbl db) of
        [] \<Rightarrow> Inl ErrNoRows
      | l # ls \<Rightarrow> Inr (loc_id l))"

definition delete_results_of_location :: "database \<Rightarrow> int \<Rightarrow> database" where
  "delete_results_of_location db locationID =
     db\<lparr>results_tbl :=
          filter (\<lambda>r. \<not> (\<exists>e \<in> set (events_tbl db).
                            location_id e = locationID \<and> event_id r = Some (ev_id e)))
            (results_tbl db)\<rparr>"

definition delete_events_of_location :: "database \<Rightarrow> int \<Rightarrow> database" where
  "delete_events_of_location db locationID =
     db\<lparr>events_tbl := filter (\<lambda>e. location_id e \<noteq> locationID) (events_tbl db)\<rparr>"

definition delete_location :: "database \<Rightarrow> int \<Rightarrow> database" where
  "delete_location db locationID =
     db\<lparr>locations_tbl := filter (\<lambda>l. loc_id l \<noteq> locationID) (locations_tbl db)\<rparr>"

definition ClearLocationData ::
  "database \<Rightarrow> (stmt \<Rightarrow> bool) \<Rightarrow> string \<Rightarrow> error option \<times> database \<times> stmt list" where
  "ClearLocationData db fails urlSlug =
     (if fails SelectLocation
      then (Some (Errorf ''error finding location''), db, [SelectLocation])
      else
        case select_location_id db urlSlug of
          Inl err \<Rightarrow>
            (if err = ErrNoRows then (None, db, [SelectLocation])
             else (Some (Errorf ''error finding location''), db, [SelectLocation]))
        | Inr locationID \<Rightarrow>
            if fails Begin
            then (Some (Errorf ''error starting transaction''), db, [SelectLocation, Begin])
            else
              let tx1 = delete_results_of_location db locationID in
              if fails DeleteResults
              then (Some (Errorf ''error deleting results''), db,
                    [SelectLocation, Begin, DeleteResults, Rollback])
              else
                let tx2 = delete_events_of_location tx1 locationID in
                if fails DeleteEvents
                then (Some (Errorf ''error deleting events''), db,
                      [SelectLocation, Begin, DeleteResults, DeleteEvents, Rollback])
                else
                  let tx3 = delete_location tx2 locationID in
                  if fails DeleteLocation
                  then (Some (Errorf ''error deleting location''), db,
                        [SelectLocation, Begin, DeleteResults, DeleteEvents, DeleteLocation,
                         Rollback])
                  else if fails Commit
                  then (Some (Errorf ''error committing transaction''), db,
                        [SelectLocation, Begin, DeleteResults, DeleteEvents, DeleteLocation,
                         Commit])
                  else (None, tx3,
                        [SelectLocation, Begin, DeleteResults, DeleteEvents, DeleteLocation,
                         Commit]))"

section \<open>main.go: the ingest loop\<close>

text \<open>
  What the world answers during one pass of the loop: the reply to the GET, whether the
  driver fails the event's \<open>INSERT\<close>, and which result rows it fails.
\<close>

record world_step =
  reply :: http_reply
  event_exec_fails :: bool
  results_failing :: "nat list"

text \<open>
  The variables the loop carries: \<open>eventID\<close>, \<open>consecutiveErrors\<close>, the database
  behind \<open>db\<close>, and the seconds handed to \<open>time.Sleep\<close> so far, in order.
\<close>

record loop_state =
  eventID :: int
  consecutiveErrors :: int
  store :: database
  slept :: "int list"

text \<open>
  How one pass ends: \<open>Continue\<close> is both the \<open>continue\<close> statement and the end of
  the body; \<open>Return\<close> is the \<open>return\<close> on status 425 ("Scraping complete");
  \<open>Break\<close> is the \<open>break\<close> after the notice "Reached 3 consecutive errors. Stopping.".
\<close>

datatype loop_step = Continue loop_state | Return loop_state | Break loop_state

text \<open>
  Lines 168 to 174: any error that is not status 405 or 425. \<open>consecutiveErrors++\<close>
  is an addition on a Go \<open>int\<close>.
\<close>

definition count_error :: "loop_state \<Rightarrow> loop_step" where
  "count_error st =
     (let n = int64 (consecutiveErrors st + 1) in
      if n \<ge> 3 then Break (st\<lparr>consecutiveErrors := n\<rparr>)
      else Continue (st\<lparr>consecutiveErrors := n, slept := slept st @ [5]\<rparr>))"

definition loop_body ::
  "time_parser \<Rightarrow> string \<Rightarrow> int \<Rightarrow> loop_state \<Rightarrow> world_step \<Rightarrow> loop_step" where
  "loop_body tp urlSlug locationID st w =
     (case ParseResults tp (reply w) urlSlug (eventID st) of
        Inl err \<Rightarrow>
          (case err of
             HTTPError code msg \<Rightarrow>
               if code = 405 then Continue (st\<lparr>slept := slept st @ [180]\<rparr>)
               else if code = 425 then Return st
               else count_error st
           | _ \<Rightarrow> count_error st)
      | Inr sc \<Rightarrow>
          (let event = (scraped_event sc)\<lparr>LocationID := locationID\<rparr>;
               st0 = st\<lparr>consecutiveErrors := 0\<rparr>
           in case StoreEvent (store st0) (event_exec_fails w) event of
                (Inl err, db') \<Rightarrow> Continue (st0\<lparr>store := db'\<rparr>)
              | (Inr dbEventID, db') \<Rightarrow>
                  (let db'' = (if length (scraped_results sc) > 0
                               then fst (StoreResults db' (results_failing w)
                                           (scraped_results sc) dbEventID)
                               else db')
                   in Continue (st0\<lparr>store := db'', eventID := int64 (eventID st0 + 1),
                                   slept := slept st0 @ [5]\<rparr>))))"

text \<open>
  The \<open>for\<close> loop over a script of answers. The loop may run for ever (a server that
  always answers 405), so a script that runs out leaves it \<open>Waiting\<close> for the next
  reply; \<open>Returned\<close> and \<open>Broke\<close> are its two ways out.
\<close>

datatype loop_outcome = Waiting loop_state | Returned loop_state | Broke loop_state

fun run_loop ::
  "time_parser \<Rightarrow> string \<Rightarrow> int \<Rightarrow> loop_state \<Rightarrow> world_step list \<Rightarrow> loop_outcome" where
  "run_loop tp urlSlug locationID st [] = Waiting st"
| "run_loop tp urlSlug locationID st (w # ws) =
     (case loop_body tp urlSlug locationID st w of
        Continue st' \<Rightarrow> run_loop tp urlSlug locationID st' ws
      | Return st' \<Rightarrow> Returned st'
      | Break st' \<Rightarrow> Broke st')"

text \<open>
  The start of \<open>parseAndStoreResults\<close>: \<open>INSERT OR IGNORE INTO locations ... RETURNING id\<close>
  with the \<open>SELECT\<close> that follows when the insert returned no row: the driver failed
  it, or the slug is stored and the insert was ignored. SQLite draws the row id of an
  \<open>AUTOINCREMENT\<close> key before it finds the conflict, so an ignored insert still moves
  the table's counter on.
\<close>

definition insert_or_get_location ::
  "database \<Rightarrow> (query \<Rightarrow> bool) \<Rightarrow> string \<Rightarrow> (error + int) \<times> database" where
  "insert_or_get_location db qf urlSlug =
     (let new_id = next_rowid (seq_locations db) (map loc_id (locations_tbl db)) in
      if \<not> qf InsertLocation \<and> select_location_id db urlSlug = Inl ErrNoRows
      then (Inr new_id,
            db\<lparr>locations_tbl := locations_tbl db @
                  [\<lparr>loc_id = new_id, slug = urlSlug, loc_name = None, country = ''AUS''\<rparr>],
                seq_locations := new_id\<rparr>)
      else
        let db' = (if qf InsertLocation then db else db\<lparr>seq_locations := new_id\<rparr>)
        in if qf LocationBySlug then (Inl DriverError, db')
           else (select_location_id db' urlSlug, db'))"

text \<open>
  \<open>parseAndStoreResults\<close>: \<open>Inl\<close> is the message of \<open>log.Fatal\<close>. The tables are
  taken as created.
\<close>

definition parseAndStoreResults ::
  "time_parser \<Rightarrow> database \<Rightarrow> (stmt \<Rightarrow> bool) \<Rightarrow> (query \<Rightarrow> bool) \<Rightarrow> string \<Rightarrow> bool
   \<Rightarrow> world_step list \<Rightarrow> string + loop_outcome" where
  "parseAndStoreResults tp db clear_fails qf urlSlug clearData world =
     (case (if clearData then ClearLocationData db clear_fails urlSlug else (None, db, [])) of
        (Some err, db1, sent) \<Rightarrow> Inl ''Failed to clear existing data''
      | (None, db1, sent) \<Rightarrow>
          (case insert_or_get_location db1 qf urlSlug of
             (Inl err, db2) \<Rightarrow> Inl ''Failed to get location ID''
           | (Inr locationID, db2) \<Rightarrow>
               Inr (run_loop tp urlSlug locationID
                      \<lparr>eventID = GetNextEventNumber db2 qf locationID, consecutiveErrors = 0,
                       store = db2, slept = []\<rparr>
                      world)))"

section \<open>reports.go\<close>

text \<open>
  Of \<open>RunnerStat\<close> the report fills and reads two fields, the name and the count; the
  others stay zero and are left out.
\<close>

record RunnerStat =
  rs_Name :: string
  rs_TotalRuns :: int

record TimeStats =
  Category :: string
  Median :: string
  Count :: int

text \<open>
  \<open>FROM results r JOIN events e ON r.event_id = e.id WHERE e.location_id = ?\<close>: every
  result paired with the event it belongs to, for the events of one location.
\<close>

definition joined :: "database \<Rightarrow> int \<Rightarrow> (result_row \<times> event_row) list" where
  "joined db locationID =
     concat (map (\<lambda>r. map (\<lambda>e. (r, e))
                         (filter (\<lambda>e. event_id r = Some (ev_id e) \<and> location_id e = locationID)
                            (events_tbl db)))
               (results_tbl db))"

subsection \<open>GetTopParticipants\<close>

text \<open>
  The query groups by name, orders the groups by their count, largest first, and cuts the
  list at \<open>LIMIT\<close> (a negative limit is no limit in SQLite). SQL leaves the order of
  groups with equal counts open; SQLite builds the groups in the order of their names and
  returns those with equal counts in the reverse of that order, and so does the model.
  An error of the query, or of the scan of a row, is returned.
\<close>

definition GetTopParticipants ::
  "database \<Rightarrow> (query \<Rightarrow> bool) \<Rightarrow> int \<Rightarrow> int \<Rightarrow> error + RunnerStat list" where
  "GetTopParticipants db qf locationID limit =
     (let rows = filter (\<lambda>(r, e). name r \<noteq> ''Unknown'') (joined db locationID);
          names = sort (remdups (map (\<lambda>(r, e). name r) rows));
          groups = map (\<lambda>n. (n, int (length (filter (\<lambda>(r, e). name r = n) rows)))) names;
          ordered = rev (sort_key snd groups);
          limited = (if limit < 0 then ordered else take (nat limit) ordered)
      in if qf TopParticipants then Inl (Errorf ''query error'')
         else if qf TopParticipantsScan \<and> limited \<noteq> [] then Inl (Errorf ''scan error'')
         else Inr (map (\<lambda>(n, run_count). \<lparr>rs_Name = n, rs_TotalRuns = run_count\<rparr>) limited))"

subsection \<open>secondsToTime\<close>

definition secondsToTime :: "int \<Rightarrow> string" where
  "secondsToTime seconds =
     (if seconds = 0 then ''Unknown''
      else
        let hours = go_div seconds 3600;
            minutes = go_div (go_mod seconds 3600) 60;
            secs = go_mod seconds 60
        in if hours > 0 then Itoa hours @ '':'' @ pad2 minutes @ '':'' @ pad2 secs
           else Itoa minutes @ '':'' @ pad2 secs)"

subsection \<open>GetMedianTimesByAgeCategory\<close>

text \<open>
  The rows of the query: category and time of every joined result whose time is positive
  and whose category is neither NULL nor empty, ordered by category.
\<close>

definition category_rows :: "database \<Rightarrow> int \<Rightarrow> (string \<times> int) list" where
  "category_rows db locationID =
     sort_key fst
       (List.map_filter
          (\<lambda>(r, e). case (age_category r, time_seconds r) of
                       (Some c, Some t) \<Rightarrow> if t > 0 \<and> c \<noteq> [] then Some (c, t) else None
                     | _ \<Rightarrow> None)
          (joined db locationID))"

text \<open>\<open>categoryTimes[category]\<close> after the scan loop.\<close>

definition categoryTimes :: "(string \<times> int) list \<Rightarrow> string \<Rightarrow> int list" where
  "categoryTimes rows category = map snd (filter (\<lambda>(c, t). c = category) rows)"

text \<open>
  Lines 487 to 494, on the sorted times of one category. The sum of the two central times
  is a sum of two Go \<open>int\<close>s.
\<close>

definition category_median :: "int list \<Rightarrow> int" where
  "category_median times' =
     (let n = length times' in
      if n mod 2 = 0 \<and> n > 0
      then go_div (int64 (times' ! (n div 2 - 1) + times' ! (n div 2))) 2
      else if n > 0 then times' ! (n div 2)
      else 0)"

text \<open>
  The file holds an earlier revision of the function as well (lines 107 to 125), which
  takes the element at index \<open>len(times)/2\<close> for every count. The revision modelled
  here is the later one, which belongs to the \<open>main.go\<close> of the repository (it comes
  with \<open>PrintComparisonReport\<close>).
\<close>

definition category_median_earlier :: "int list \<Rightarrow> int" where
  "category_median_earlier times' = times' ! (length times' div 2)"

text \<open>
  An error of the query, or of the scan of a row, is returned. The map is walked in an
  order Go leaves open; the final \<open>sort.Slice\<close> by category makes the result the same
  for every order, the categories being distinct.
\<close>

definition GetMedianTimesByAgeCategory ::
  "database \<Rightarrow> (query \<Rightarrow> bool) \<Rightarrow> int \<Rightarrow> error + TimeStats list" where
  "GetMedianTimesByAgeCategory db qf locationID =
     (let rows = category_rows db locationID in
      if qf CategoryTimes then Inl (Errorf ''query error'')
      else if qf CategoryTimesScan \<and> rows \<noteq> [] then Inl (Errorf ''scan error'')
      else
        Inr (map (\<lambda>category.
                    let times' = sort (categoryTimes rows category)
                    in \<lparr>Category = category, Median = secondsToTime (category_median times'),
                        Count = int (length times')\<rparr>)
               (sort (remdups (map fst rows)))))"

text \<open>
  The median as the specification words it: the middle element of the sorted times for an
  odd count, the arithmetic mean of the two central ones for an even count.
\<close>

definition spec_median :: "int list \<Rightarrow> rat" where
  "spec_median times' =
     (let n = length times' in
      if odd n then of_int (times' ! (n div 2))
      else (of_int (times' ! (n div 2 - 1)) + of_int (times' ! (n div 2))) / 2)"

subsection \<open>GetLocationStats\<close>

definition parseDateTime :: "time_parser \<Rightarrow> string \<Rightarrow> error + time" where
  "parseDateTime tp dateStr =
     (case tp ''2006-01-02'' dateStr of
        Some t \<Rightarrow> Inr t
      | None \<Rightarrow>
          (case tp ''2006-01-02 15:04:05-07:00'' dateStr of
             Some t \<Rightarrow> Inr t
           | None \<Rightarrow>
               (case tp ''2006-01-02 15:04:05+00:00'' dateStr of
                  Some t \<Rightarrow> Inr t
                | None \<Rightarrow> Inl (Errorf ''error parsing date''))))"

text \<open>
  The map of statistics, one field per key. The dates of the biggest and the smallest
  event are kept as the stored text, and the average as an exact fraction.
\<close>

record location_stats =
  first_event :: time
  last_event :: time
  biggest_event_date :: string
  biggest_event_count :: int
  smallest_event_date :: string
  smallest_event_count :: int
  total_events :: int
  total_runners :: int
  avg_participants :: rat
  stats_location_id :: "int option"

text \<open>
  \<open>SELECT e.date, COUNT(*) ... GROUP BY e.id\<close>: one row per event of the location that
  has a result, in the order of the ids. SQL leaves open which of several events with the
  same count comes first under \<open>ORDER BY participant_count\<close>; SQLite keeps the order of
  the groups when the order is ascending and reverses it when the order is descending,
  and so does the model.
\<close>

definition participant_counts :: "database \<Rightarrow> int \<Rightarrow> (string \<times> int) list" where
  "participant_counts db locationID =
     (let rows = joined db locationID in
      map (\<lambda>i. (date (snd (hd (filter (\<lambda>(r, e). ev_id e = i) rows))),
                int (length (filter (\<lambda>(r, e). ev_id e = i) rows))))
        (sort (remdups (map (\<lambda>(r, e). ev_id e) rows))))"

text \<open>
  Seven queries, each of which returns its error when the driver fails it. The first
  returns NULLs for a location without events, and each of the next two no row for a
  location without results: \<open>Scan\<close> then fails, with the same error.
\<close>

definition GetLocationStats ::
  "time_parser \<Rightarrow> database \<Rightarrow> (query \<Rightarrow> bool) \<Rightarrow> int \<Rightarrow> error + location_stats" where
  "GetLocationStats tp db qf locationID =
     (case (if qf EventDates then []
            else map date (filter (\<lambda>e. location_id e = locationID) (events_tbl db))) of
        [] \<Rightarrow> Inl (Errorf ''event dates error'')
      | d # ds \<Rightarrow>
          (case parseDateTime tp (fold min ds d) of
             Inl err \<Rightarrow> Inl err
           | Inr firstEvent \<Rightarrow>
               (case parseDateTime tp (fold max ds d) of
                  Inl err \<Rightarrow> Inl err
                | Inr lastEvent \<Rightarrow>
                    (case (if qf BiggestEvent then []
                           else rev (sort_key snd (participant_counts db locationID))) of
                       [] \<Rightarrow> Inl (Errorf ''biggest event error'')
                     | (biggestDate, biggestCount) # bs \<Rightarrow>
                         (case (if qf SmallestEvent then []
                                else sort_key snd (participant_counts db locationID)) of
                            [] \<Rightarrow> Inl (Errorf ''smallest event error'')
                          | (smallestDate, smallestCount) # ss \<Rightarrow>
                              if qf EventCount then Inl (Errorf ''event count error'')
                              else if qf RunnerCount then Inl (Errorf ''runner count error'')
                              else if qf AvgParticipants
                              then Inl (Errorf ''avg participants error'')
                              else
                                Inr \<lparr>first_event = firstEvent, last_event = lastEvent,
                                     biggest_event_date = biggestDate,
                                     biggest_event_count = biggestCount,
                                     smallest_event_date = smallestDate,
                                     smallest_event_count = smallestCount,
                                     total_events =
                                       int (length (filter (\<lambda>e. location_id e = locationID)
                                                      (events_tbl db))),
                                     total_runners =
                                       int (length (remdups (map (\<lambda>(r, e). name r)
                                                               (joined db locationID)))),
                                     avg_participants =
                                       of_int (sum_list (map snd
                                                 (participant_counts db locationID)))
                                       / of_int (int (length
                                                 (participant_counts db locationID))),
                                     stats_location_id = None\<rparr>)))))"

subsection \<open>calculateMedianTime\<close>

definition calculateMedianTime :: "string list \<Rightarrow> string" where
  "calculateMedianTime times' =
     (if length times' = 0 then ''N/A'' else sort times' ! (length times' div 2))"

subsection \<open>PrintReports\<close>

text \<open>
  A report either panics, returns an error, or runs to its end; then \<open>Ok\<close> holds what it
  printed, as values instead of lines of text.
\<close>

datatype 'a outcome = Panic | Fail error | Ok 'a

definition group_of_prefix :: "string \<Rightarrow> string" where
  "group_of_prefix prefix =
     (if prefix = ''JM'' \<or> prefix = ''JW'' then ''Juniors''
      else if prefix = ''SM'' \<or> prefix = ''VM'' then ''Men''
      else if prefix = ''SW'' \<or> prefix = ''VW'' then ''Women''
      else ''Other'')"

text \<open>
  Lines 720 to 739. The slice expression \<open>stat.Category[:2]\<close> panics when the category
  has fewer than two bytes: that is \<open>None\<close>. The two Go maps are functions whose
  value at a key never written is the empty slice.
\<close>

fun group_stats ::
  "TimeStats list \<Rightarrow> (string \<Rightarrow> TimeStats list) \<times> (string \<Rightarrow> string list)
   \<Rightarrow> ((string \<Rightarrow> TimeStats list) \<times> (string \<Rightarrow> string list)) option" where
  "group_stats [] (groups, groupTimes) = Some (groups, groupTimes)"
| "group_stats (stat # rest) (groups, groupTimes) =
     (if length (Category stat) < 2 then None
      else
        let groupName = group_of_prefix (take 2 (Category stat))
        in group_stats rest
             (groups(groupName := groups groupName @ [stat]),
              groupTimes(groupName := groupTimes groupName
                                       @ replicate (nat (Count stat)) (Median stat))))"

record report =
  report_stats :: location_stats
  report_runners :: "RunnerStat list"
  report_groups :: "(string \<times> string \<times> TimeStats list) list"

text \<open>
  When the slug is not stored the function lists the stored slugs in its error; it
  returns an error whether that list can be read or not.
\<close>

definition PrintReports ::
  "time_parser \<Rightarrow> database \<Rightarrow> (query \<Rightarrow> bool) \<Rightarrow> string \<Rightarrow> report outcome" where
  "PrintReports tp db qf locationSlug =
     (if qf LocationBySlug then Fail (Errorf ''database error'')
      else
        case select_location_id db locationSlug of
          Inl err \<Rightarrow>
            (if err = ErrNoRows
             then (if qf AvailableLocations
                   then Fail (Errorf ''not found and error getting available locations'')
                   else Fail (Errorf ''Location not found in database''))
             else Fail (Errorf ''database error''))
        | Inr locationID \<Rightarrow>
            (case GetLocationStats tp db qf locationID of
               Inl err \<Rightarrow> Fail err
             | Inr stats \<Rightarrow>
                 (case GetTopParticipants db qf locationID 10 of
                    Inl err \<Rightarrow> Fail err
                  | Inr runners \<Rightarrow>
                      (case GetMedianTimesByAgeCategory db qf locationID of
                         Inl err \<Rightarrow> Fail err
                       | Inr times' \<Rightarrow>
                           (case group_stats times' (\<lambda>g. [], \<lambda>g. []) of
                              None \<Rightarrow> Panic
                            | Some (groups, groupTimes) \<Rightarrow>
                                Ok \<lparr>report_stats = stats, report_runners = runners,
                                    report_groups =
                                      map (\<lambda>groupName.
                                             (groupName,
                                              calculateMedianTime (groupTimes groupName),
                                              groups groupName))
                                        (filter (\<lambda>groupName. length (groups groupName) > 0)
                                           [''Juniors'', ''Men'', ''Women'', ''Other''])\<rparr>)))))"

subsection \<open>PrintComparisonReport\<close>

definition getLocationStats ::
  "time_parser \<Rightarrow> database \<Rightarrow> (query \<Rightarrow> bool) \<Rightarrow> string \<Rightarrow> error + location_stats" where
  "getLocationStats tp db qf locationSlug =
     (if qf LocationBySlug then Inl (Errorf ''database error'')
      else
        case select_location_id db locationSlug of
          Inl err \<Rightarrow>
            (if err = ErrNoRows then Inl (Errorf ''location not found'')
             else Inl (Errorf ''database error''))
        | Inr locationID \<Rightarrow>
            (case GetLocationStats tp db qf locationID of
               Inl err \<Rightarrow> Inl err
             | Inr stats \<Rightarrow> Inr (stats\<lparr>stats_location_id := Some locationID\<rparr>)))"

text \<open>
  Lines 858 to 870: the categories of both locations are put into four lists by their
  first two bytes; \<open>cat[:2]\<close> panics on a category shorter than that. The map is walked
  in an order Go leaves open, and each list is sorted afterwards.
\<close>

fun group_categories ::
  "string list \<Rightarrow> string list \<times> string list \<times> string list \<times> string list
   \<Rightarrow> (string list \<times> string list \<times> string list \<times> string list) option" where
  "group_categories [] (juniors, males, females, others) =
     Some (juniors, males, females, others)"
| "group_categories (cat # rest) (juniors, males, females, others) =
     (if length cat < 2 then None
      else
        let prefix = take 2 cat in
        if prefix = ''JM'' \<or> prefix = ''JW''
        then group_categories rest (juniors @ [cat], males, females, others)
        else if prefix = ''SM'' \<or> prefix = ''VM''
        then group_categories rest (juniors, males @ [cat], females, others)
        else if prefix = ''SW'' \<or> prefix = ''VW''
        then group_categories rest (juniors, males, females @ [cat], others)
        else group_categories rest (juniors, males, females, others @ [cat]))"

text \<open>\<open>printCategoryComparisons\<close>: one line per category, "N/A" where a side has none.\<close>

definition printCategoryComparisons ::
  "string list \<Rightarrow> (string \<rightharpoonup> TimeStats) \<Rightarrow> (string \<rightharpoonup> TimeStats)
   \<Rightarrow> (string \<times> string \<times> string) list" where
  "printCategoryComparisons categories medians1 medians2 =
     map (\<lambda>cat.
            case (medians1 cat, medians2 cat) of
              (Some t1, Some t2) \<Rightarrow> (cat, Median t1, Median t2)
            | (Some t1, None) \<Rightarrow> (cat, Median t1, ''N/A'')
            | (None, Some t2) \<Rightarrow> (cat, ''N/A'', Median t2)
            | (None, None) \<Rightarrow> (cat, ''N/A'', []))
       categories"

record comparison =
  stats1 :: location_stats
  stats2 :: location_stats
  juniors_lines :: "(string \<times> string \<times> string) list"
  males_lines :: "(string \<times> string \<times> string) list"
  females_lines :: "(string \<times> string \<times> string) list"
  others_lines :: "(string \<times> string \<times> string) list"

definition PrintComparisonReport ::
  "time_parser \<Rightarrow> database \<Rightarrow> (query \<Rightarrow> bool) \<Rightarrow> string \<Rightarrow> string \<Rightarrow> comparison outcome" where
  "PrintComparisonReport tp db qf location1 location2 =
     (case getLocationStats tp db qf location1 of
        Inl err \<Rightarrow> Fail err
      | Inr s1 \<Rightarrow>
          (case getLocationStats tp db qf location2 of
             Inl err \<Rightarrow> Fail err
           | Inr s2 \<Rightarrow>
               (case GetMedianTimesByAgeCategory db qf (the (stats_location_id s1)) of
                  Inl err \<Rightarrow> Fail err
                | Inr times1 \<Rightarrow>
                    (case GetMedianTimesByAgeCategory db qf (the (stats_location_id s2)) of
                       Inl err \<Rightarrow> Fail err
                     | Inr times2 \<Rightarrow>
                         (let medians1 = map_of (rev (map (\<lambda>t. (Category t, t)) times1));
                              medians2 = map_of (rev (map (\<lambda>t. (Category t, t)) times2));
                              categories = remdups (map Category (times1 @ times2))
                          in case group_categories categories ([], [], [], []) of
                               None \<Rightarrow> Panic
                             | Some (juniors, males, females, others) \<Rightarrow>
                                 Ok \<lparr>stats1 = s1, stats2 = s2,
                                     juniors_lines =
                                       printCategoryComparisons (sort juniors) medians1 medians2,
                                     males_lines =
                                       printCategoryComparisons (sort males) medians1 medians2,
                                     females_lines =
                                       printCategoryComparisons (sort females) medians1 medians2,
                                     others_lines =
                                       printCategoryComparisons (sort others) medians1 medians2\<rparr>)))))"

section \<open>Concrete runs\<close>

text \<open>
  \<open>time.Parse\<close> on the two shapes of text the concrete runs below hold: a date alone
  under the layout \<open>2006-01-02\<close>, and a date followed by the midnight
  \<open>00:00:00+00:00\<close> (what the driver stores) under \<open>2006-01-02 15:04:05-07:00\<close>.
  The date is four digits, two digits and two digits between hyphens, the month and the
  day in range. For every other layout or text the answer is \<open>None\<close>, so the function
  stands for \<open>time.Parse\<close> on texts of these two shapes, and on the empty text, which
  no layout accepts.
\<close>

definition days_in :: "int \<Rightarrow> int \<Rightarrow> int" where
  "days_in y m =
     (if m = 2 then (if y mod 4 = 0 \<and> (y mod 100 \<noteq> 0 \<or> y mod 400 = 0) then 29 else 28)
      else if m = 4 \<or> m = 6 \<or> m = 9 \<or> m = 11 then 30 else 31)"

definition parse_ymd :: "string \<Rightarrow> time option" where
  "parse_ymd s =
     (if length s = 10 \<and> s ! 4 = CHR ''-'' \<and> s ! 7 = CHR ''-''
         \<and> list_all is_digit (take 4 s) \<and> list_all is_digit (take 2 (drop 5 s))
         \<and> list_all is_digit (drop 8 s)
      then
        (let y = int (dec_value (take 4 s));
             m = int (dec_value (take 2 (drop 5 s)));
             d = int (dec_value (drop 8 s))
         in if 1 \<le> m \<and> m \<le> 12 \<and> 1 \<le> d \<and> d \<le> days_in y m then Some (MkTime y m d)
            else None)
      else None)"

definition parse_stored_date :: time_parser where
  "parse_stored_date layout s =
     (if layout = ''2006-01-02'' then parse_ymd s
      else if layout = ''2006-01-02 15:04:05-07:00'' \<and> drop 10 s = '' 00:00:00+00:00''
      then parse_ymd (take 10 s)
      else None)"

text \<open>
  The database of \<open>TestGetNextEventNumber\<close>, built by the program's own functions: one
  location, then the events numbered 1 and 2.
\<close>

definition db_two_events :: database where
  "db_two_events =
     (let db0 = snd (insert_or_get_location empty_database (\<lambda>q. False) ''test-location'');
          db1 = snd (StoreEvent db0 False
                  \<lparr>EventNumber = 1, LocationID = 1, Date = MkTime 2023 1 1,
                   URL = ''http://example.com/1''\<rparr>)
      in snd (StoreEvent db1 False
                  \<lparr>EventNumber = 2, LocationID = 1, Date = MkTime 2023 1 8,
                   URL = ''http://example.com/2''\<rparr>))"

text \<open>One location whose only stored event carries the largest number a Go \<open>int\<close> holds.\<close>

definition db_last_event :: database where
  "db_last_event =
     snd (StoreEvent (snd (insert_or_get_location empty_database (\<lambda>q. False) ''test-location''))
            False
            \<lparr>EventNumber = 9223372036854775807, LocationID = 1, Date = MkTime 2023 1 1,
             URL = ''http://example.com/1''\<rparr>)"

text \<open>The database of \<open>TestClearLocationData\<close>: two locations with one event and one result each.\<close>

definition db_clear :: database where
  "db_clear =
     \<lparr>locations_tbl =
        [\<lparr>loc_id = 1, slug = ''location-1'', loc_name = None, country = ''AUS''\<rparr>,
         \<lparr>loc_id = 2, slug = ''location-2'', loc_name = None, country = ''AUS''\<rparr>],
      events_tbl =
        [\<lparr>ev_id = 1, event_number = 1, location_id = 1, date = ''2023-01-01'',
          url = ''http://example.com/1''\<rparr>,
         \<lparr>ev_id = 2, event_number = 1, location_id = 2, date = ''2023-01-01'',
          url = ''http://example.com/2''\<rparr>],
      results_tbl =
        [\<lparr>res_id = 1, position = 1, name = ''Runner A'', time_seconds = Some 1200,
          age_grade = None, age_category = None, res_note = None, total_runs = None,
          event_id = Some 1\<rparr>,
         \<lparr>res_id = 2, position = 1, name = ''Runner B'', time_seconds = Some 1300,
          age_grade = None, age_category = None, res_note = None, total_runs = None,
          event_id = Some 2\<rparr>],
      seq_locations = 2, seq_events = 2, seq_results = 2\<rparr>"

text \<open>
  What the cascade has to leave: the tables without the results of the location's events,
  without those events and without the location's row, every other row in place.
\<close>

definition cleared :: "database \<Rightarrow> int \<Rightarrow> database" where
  "cleared db locationID =
     db\<lparr>results_tbl :=
          filter (\<lambda>r. \<not> (\<exists>e \<in> set (events_tbl db).
                            location_id e = locationID \<and> event_id r = Some (ev_id e)))
            (results_tbl db),
        events_tbl := filter (\<lambda>e. location_id e \<noteq> locationID) (events_tbl db),
        locations_tbl := filter (\<lambda>l. loc_id l \<noteq> locationID) (locations_tbl db)\<rparr>"

text \<open>
  One event page as the loop stores it (lines 183 to 192 of main.go, the driver failing
  nothing): \<open>StoreEvent\<close>, then \<open>StoreResults\<close> under the id it returned.
\<close>

definition store_page :: "database \<Rightarrow> Event \<Rightarrow> Result list \<Rightarrow> database" where
  "store_page db event rs =
     (case StoreEvent db False event of
        (Inl err, db') \<Rightarrow> db'
      | (Inr dbEventID, db') \<Rightarrow> fst (StoreResults db' [] rs dbEventID))"

definition event1 :: Event where
  "event1 = \<lparr>EventNumber = 1, LocationID = 1, Date = MkTime 2023 1 1,
             URL = ''http://example.com/1''\<rparr>"

definition results1 :: "Result list" where
  "results1 = [\<lparr>Position = 1, Name = ''Runner A'', Time = ''20:00'', TimeSeconds = 1200,
                AgeGrade = ''65.5%'', AgeCategory = ''VM35-39'', Note = [], TotalRuns = 10,
                EventID = 0\<rparr>]"

definition db_stored_once :: database where
  "db_stored_once =
     store_page (snd (insert_or_get_location empty_database (\<lambda>q. False) ''test-location''))
       event1 results1"

text \<open>A row of the results table that carries no \<open>data-position\<close> attribute.\<close>

definition row_without_position :: html_row where
  "row_without_position =
     \<lparr>data_position = None, data_name = Some ''Runner A'', data_agegroup = Some ''VM35-39'',
      time_compact = ''19:50'', detailed = ''10 parkruns'', data_agegrade = Some ''65.5%'',
      data_achievement = None\<rparr>"

text \<open>
  Two events of one location, stored by the program's own functions: a named runner and
  an anonymised one in both, and a second named runner in the second event.
\<close>

definition runnerA :: Result where
  "runnerA = \<lparr>Position = 1, Name = ''Runner A'', Time = ''20:00'', TimeSeconds = 1200,
                AgeGrade = ''65.5%'', AgeCategory = ''VM35-39'', Note = [], TotalRuns = 10,
                EventID = 0\<rparr>"

definition unknown_runner :: Result where
  "unknown_runner = \<lparr>Position = 2, Name = ''Unknown'', Time = [], TimeSeconds = 0,
                AgeGrade = [], AgeCategory = [], Note = [], TotalRuns = 0,
                EventID = 0\<rparr>"

definition runnerB :: Result where
  "runnerB = \<lparr>Position = 3, Name = ''Runner B'', Time = ''21:40'', TimeSeconds = 1300,
                AgeGrade = ''60.1%'', AgeCategory = ''VW35-39'', Note = [], TotalRuns = 4,
                EventID = 0\<rparr>"

definition db_unknown :: database where
  "db_unknown =
     store_page
       (store_page (snd (insert_or_get_location empty_database (\<lambda>q. False) ''test-location''))
          event1 [runnerA, unknown_runner])
       (event1\<lparr>EventNumber := 2, Date := MkTime 2023 1 8, URL := ''http://example.com/2''\<rparr>)
       [runnerA, unknown_runner, runnerB]"

text \<open>
  One event whose results all fall into the category VM35-39, with the given times.
\<close>

fun runners :: "int \<Rightarrow> int list \<Rightarrow> Result list" where
  "runners p [] = []"
| "runners p (t # ts) =
     \<lparr>Position = p, Name = ''Runner'', Time = [], TimeSeconds = t, AgeGrade = [],
      AgeCategory = ''VM35-39'', Note = [], TotalRuns = 1, EventID = 0\<rparr> # runners (p + 1) ts"

definition db_times :: "int list \<Rightarrow> database" where
  "db_times ts =
     store_page (snd (insert_or_get_location empty_database (\<lambda>q. False) ''test-location'')) event1
       (runners 1 ts)"

text \<open>
  A results page with one well-formed row and no text in its date header (so that the
  event keeps the zero date), a state of the loop, and a world answer.
\<close>

definition page1 :: document where
  "page1 = \<lparr>format_date = [],
            table_rows =
              [\<lparr>data_position = Some ''1'', data_name = Some ''Runner A'',
                data_agegroup = Some ''VM35-39'', time_compact = ''19:50'',
                detailed = ''10 parkruns'', data_agegrade = Some ''65.5%'',
                data_achievement = None\<rparr>]\<rparr>"

definition state3 :: loop_state where
  "state3 = \<lparr>eventID = 3, consecutiveErrors = 2, store = db_two_events, slept = []\<rparr>"

definition answer :: "http_reply \<Rightarrow> world_step" where
  "answer r = \<lparr>reply = r, event_exec_fails = False, results_failing = []\<rparr>"

text \<open>
  The precondition of the two reports: every stored age category that is neither NULL
  nor empty has at least two bytes.
\<close>

definition categories_long :: "database \<Rightarrow> bool" where
  "categories_long db =
     (\<forall>r \<in> set (results_tbl db). \<forall>c. age_category r = Some c \<and> c \<noteq> [] \<longrightarrow> 2 \<le> length c)"

definition short_runner :: Result where
  "short_runner = \<lparr>Position = 1, Name = ''Runner A'', Time = ''20:00'', TimeSeconds = 1200,
                AgeGrade = ''65.5%'', AgeCategory = ''M'', Note = [], TotalRuns = 10,
                EventID = 0\<rparr>"

definition db_short :: database where
  "db_short =
     store_page (snd (insert_or_get_location empty_database (\<lambda>q. False) ''test-location'')) event1
       [short_runner]"

text \<open>
  A runner of category "M" whose time cell is empty, so that the time is stored as NULL,
  next to a runner of category "VM35-39" with a time.
\<close>

definition untimed_runner :: Result where
  "untimed_runner = \<lparr>Position = 2, Name = ''Runner C'', Time = [], TimeSeconds = 0,
                AgeGrade = [], AgeCategory = ''M'', Note = [], TotalRuns = 1,
                EventID = 0\<rparr>"

definition db_untimed :: database where
  "db_untimed =
     store_page (snd (insert_or_get_location empty_database (\<lambda>q. False) ''test-location'')) event1
       [runnerA, untimed_runner]"

section \<open>Proofs: strconv.Atoi and strings.Split\<close>

lemma dec_acc_Nil [simp]: "dec_acc n [] = n"
  by (simp add: dec_acc_def)

lemma dec_acc_Cons [simp]: "dec_acc n (c # cs) = dec_acc (n * 10 + digit_val c) cs"
  by (simp add: dec_acc_def)

lemma dec_value_acc: "dec_value s = dec_acc 0 s"
  by (simp add: dec_value_def)

lemma dec_acc_ge: "n \<le> dec_acc n s"
proof (induction s arbitrary: n)
  case Nil
  show ?case by simp
next
  case (Cons c cs)
  have "n \<le> n * 10 + digit_val c" by simp
  also have "\<dots> \<le> dec_acc (n * 10 + digit_val c) cs" by (rule Cons.IH)
  finally show ?case by simp
qed

lemma ParseUint_loop_ok:
  "list_all is_digit s \<Longrightarrow> dec_acc n s \<le> maxUint64 \<Longrightarrow>
   ParseUint_loop n s = (dec_acc n s, None)"
proof (induction s arbitrary: n)
  case Nil
  show ?case by simp
next
  case (Cons c cs)
  let ?m = "n * 10 + digit_val c"
  have m: "?m \<le> maxUint64"
    using dec_acc_ge [of ?m cs] Cons.prems(2) by simp
  then have n: "\<not> n \<ge> maxUint64 div 10 + 1"
    by (simp add: maxUint64_def)
  from Cons.prems have "list_all is_digit cs" "is_digit c" "dec_acc ?m cs \<le> maxUint64"
    by simp_all
  with Cons.IH [of ?m] m n show ?case by simp
qed

lemma ParseUint_loop_None:
  "ParseUint_loop n s = (v, None) \<Longrightarrow> list_all is_digit s \<and> v = dec_acc n s"
proof (induction s arbitrary: n)
  case Nil
  then show ?case by simp
next
  case (Cons c cs)
  then show ?case by (simp split: if_splits)
qed

lemma ParseUint_loop_Range:
  "ParseUint_loop n s = (v, Some ErrRange) \<Longrightarrow> v = maxUint64"
  by (induction s arbitrary: n) (auto split: if_splits)

lemma is_digit_not_sign: "is_digit c \<Longrightarrow> c \<noteq> CHR ''+'' \<and> c \<noteq> CHR ''-'' \<and> c \<noteq> CHR '':''"
  by (auto simp: is_digit_def)

lemma int64_id: "- 9223372036854775808 \<le> x \<Longrightarrow> x \<le> 9223372036854775807 \<Longrightarrow> int64 x = x"
  by (simp add: int64_def)

lemma int64_is_int64: "is_int64 x \<Longrightarrow> int64 x = x"
  by (simp add: is_int64_def maxInt64_def int64_def)

lemma ParseUint_decimal:
  "is_decimal s \<Longrightarrow> dec_value s \<le> maxUint64 \<Longrightarrow> ParseUint s = (dec_value s, None)"
  by (simp add: ParseUint_def is_decimal_def dec_value_acc ParseUint_loop_ok)

lemma ParseUint_None:
  "ParseUint s = (v, None) \<Longrightarrow> is_decimal s \<and> v = dec_value s"
  by (auto simp: ParseUint_def is_decimal_def dec_value_acc split: if_splits dest: ParseUint_loop_None)

lemma ParseUint_Range: "ParseUint s = (v, Some ErrRange) \<Longrightarrow> v = maxUint64"
  by (auto simp: ParseUint_def split: if_splits dest: ParseUint_loop_Range)

lemma Atoi_decimal:
  assumes "is_decimal s" and "int (dec_value s) \<le> maxInt64"
  shows "Atoi s = (int (dec_value s), None)"
proof -
  from assms(1) obtain c cs where s: "s = c # cs" and c: "is_digit c"
    by (cases s) (auto simp: is_decimal_def)
  from assms(2) have "dec_value s \<le> maxUint64"
    by (simp add: maxInt64_def maxUint64_def)
  with assms(1) have "ParseUint s = (dec_value s, None)"
    by (rule ParseUint_decimal)
  with assms(2) s is_digit_not_sign [OF c] show ?thesis
    by (simp add: Atoi_def ParseInt_def ParseInt_range_def)
qed

lemma ParseInt_range_None_iff:
  "snd (ParseInt_range neg s') = None
   \<longleftrightarrow> (is_decimal s' \<and> int (dec_value s') \<le> (if neg then maxInt64 + 1 else maxInt64))"
    (is "?L \<longleftrightarrow> ?R")
proof (cases "ParseUint s'")
  case (Pair v e)
  show ?thesis
  proof (cases e)
    case None
    with Pair have "is_decimal s'" "v = dec_value s'"
      using ParseUint_None by blast+
    with Pair None show ?thesis by (auto simp: ParseInt_range_def)
  next
    case (Some err)
    have nR: "\<not> ?R"
    proof
      assume R: ?R
      then have "dec_value s' \<le> maxUint64"
        by (auto simp: maxInt64_def maxUint64_def split: if_splits)
      with R have "ParseUint s' = (dec_value s', None)"
        by (simp add: ParseUint_decimal)
      with Pair Some show False by simp
    qed
    have nL: "\<not> ?L"
    proof (cases err)
      case ErrSyntax
      with Pair Some show ?thesis by (simp add: ParseInt_range_def)
    next
      case ErrRange
      with Pair Some have "v = maxUint64" using ParseUint_Range by blast
      with Pair Some ErrRange show ?thesis
        by (simp add: ParseInt_range_def maxUint64_def maxInt64_def)
    qed
    from nL nR show ?thesis by blast
  qed
qed

lemma Atoi_None_iff: "snd (Atoi s) = None \<longleftrightarrow> is_int_literal s"
proof (cases s)
  case Nil
  then show ?thesis by (simp add: Atoi_def ParseInt_def is_int_literal_def)
next
  case (Cons c cs)
  show ?thesis
  proof (cases "c = CHR ''+'' \<or> c = CHR ''-''")
    case True
    with Cons show ?thesis
      by (auto simp: Atoi_def ParseInt_def is_int_literal_def ParseInt_range_None_iff)
  next
    case False
    with Cons show ?thesis
      by (auto simp: Atoi_def ParseInt_def is_int_literal_def ParseInt_range_None_iff)
  qed
qed

lemma Split_not_Nil [simp]: "Split s sep \<noteq> []"
  by (induction s) (auto split: list.splits)

lemma Split_no_sep: "sep \<notin> set s \<Longrightarrow> Split s sep = [s]"
  by (induction s) auto

lemma Split_append: "sep \<notin> set a \<Longrightarrow> Split (a @ sep # b) sep = a # Split b sep"
  by (induction a) auto

lemma decimal_no_colon: "is_decimal s \<Longrightarrow> CHR '':'' \<notin> set s"
  using is_digit_not_sign by (auto simp: is_decimal_def list_all_iff)

lemma Split2:
  "is_decimal a \<Longrightarrow> is_decimal b \<Longrightarrow> Split (a @ CHR '':'' # b) CHR '':'' = [a, b]"
  by (simp add: Split_append Split_no_sep decimal_no_colon)

lemma Split3:
  "is_decimal a \<Longrightarrow> is_decimal b \<Longrightarrow> is_decimal c \<Longrightarrow>
   Split (a @ CHR '':'' # b @ CHR '':'' # c) CHR '':'' = [a, b, c]"
  by (simp add: Split_append Split_no_sep decimal_no_colon)

lemma colon_text: "a @ CHR '':'' # b \<noteq> [] \<and> a @ CHR '':'' # b \<noteq> ''Unknown''"
proof -
  have "a @ CHR '':'' # b \<noteq> ''Unknown''"
  proof
    assume "a @ CHR '':'' # b = ''Unknown''"
    then have "set (a @ CHR '':'' # b) = set ''Unknown''" by (rule arg_cong)
    moreover have "CHR '':'' \<in> set (a @ CHR '':'' # b)" by simp
    ultimately have "CHR '':'' \<in> set ''Unknown''" by blast
    then show False by simp
  qed
  then show ?thesis by simp
qed

section \<open>Proofs: timeToSeconds\<close>

text \<open>
  C5 (amended). For every two-segment input \<open>a:b\<close> whose segments are non-empty runs of
  decimal digits, \<open>timeToSeconds\<close> returns minutes*60+seconds, provided that total does
  not exceed the largest 64-bit integer; for every such three-segment input it returns
  hours*3600+minutes*60+seconds under the same bound. So "23:45" gives 1425 and "1:23:45"
  gives 5025. The empty text and "Unknown" give zero and no error.
\<close>

theorem timeToSeconds_value:
  "(\<forall>a b. is_decimal a \<and> is_decimal b \<and> int (dec_value a) * 60 + int (dec_value b) \<le> maxInt64 \<longrightarrow>
      timeToSeconds (a @ CHR '':'' # b) = Inr (int (dec_value a) * 60 + int (dec_value b)))
   \<and> (\<forall>a b c. is_decimal a \<and> is_decimal b \<and> is_decimal c \<and>
         int (dec_value a) * 3600 + int (dec_value b) * 60 + int (dec_value c) \<le> maxInt64 \<longrightarrow>
      timeToSeconds (a @ CHR '':'' # b @ CHR '':'' # c) =
        Inr (int (dec_value a) * 3600 + int (dec_value b) * 60 + int (dec_value c)))
   \<and> timeToSeconds ''23:45'' = Inr 1425
   \<and> timeToSeconds ''1:23:45'' = Inr 5025
   \<and> timeToSeconds [] = Inr 0
   \<and> timeToSeconds ''Unknown'' = Inr 0"
proof (intro conjI allI impI)
  fix a b
  assume h: "is_decimal a \<and> is_decimal b \<and> int (dec_value a) * 60 + int (dec_value b) \<le> maxInt64"
  then have A: "Atoi a = (int (dec_value a), None)" and B: "Atoi b = (int (dec_value b), None)"
    by (auto intro!: Atoi_decimal)
  from h have "int64 (int (dec_value a) * 60) = int (dec_value a) * 60"
    by (intro int64_id) (auto simp: maxInt64_def)
  moreover from h have "int64 (int (dec_value a) * 60 + int (dec_value b)) = int (dec_value a) * 60 + int (dec_value b)"
    by (intro int64_id) (auto simp: maxInt64_def)
  ultimately show "timeToSeconds (a @ CHR '':'' # b) = Inr (int (dec_value a) * 60 + int (dec_value b))"
    using h A B colon_text [of a b] by (simp add: timeToSeconds_def Split2)
next
  fix a b c
  assume h: "is_decimal a \<and> is_decimal b \<and> is_decimal c \<and>
         int (dec_value a) * 3600 + int (dec_value b) * 60 + int (dec_value c) \<le> maxInt64"
  then have A: "Atoi a = (int (dec_value a), None)" and B: "Atoi b = (int (dec_value b), None)"
    and C: "Atoi c = (int (dec_value c), None)"
    by (auto intro!: Atoi_decimal)
  from h have 1: "int64 (int (dec_value a) * 3600) = int (dec_value a) * 3600"
    by (intro int64_id) (auto simp: maxInt64_def)
  from h have 2: "int64 (int (dec_value b) * 60) = int (dec_value b) * 60"
    by (intro int64_id) (auto simp: maxInt64_def)
  from h have 3: "int64 (int (dec_value a) * 3600 + int (dec_value b) * 60) = int (dec_value a) * 3600 + int (dec_value b) * 60"
    by (intro int64_id) (auto simp: maxInt64_def)
  from h have 4: "int64 (int (dec_value a) * 3600 + int (dec_value b) * 60 + int (dec_value c)) =
      int (dec_value a) * 3600 + int (dec_value b) * 60 + int (dec_value c)"
    by (intro int64_id) (auto simp: maxInt64_def)
  show "timeToSeconds (a @ CHR '':'' # b @ CHR '':'' # c) =
        Inr (int (dec_value a) * 3600 + int (dec_value b) * 60 + int (dec_value c))"
    using h A B C colon_text [of a "b @ CHR '':'' # c"] 1 2 3 4
    by (simp add: timeToSeconds_def Split3)
qed (simp_all add: timeToSeconds_def Atoi_def ParseInt_def ParseInt_range_def ParseUint_def is_digit_def digit_val_def maxUint64_def maxInt64_def int64_def)

theorem timeToSeconds_value_witness:
  "is_decimal ''19'' \<and> is_decimal ''50''
   \<and> int (dec_value ''19'') * 60 + int (dec_value ''50'') \<le> maxInt64
   \<and> timeToSeconds ''19:50'' = Inr 1190
   \<and> is_decimal ''1'' \<and> is_decimal ''02'' \<and> is_decimal ''05''
   \<and> int (dec_value ''1'') * 3600 + int (dec_value ''02'') * 60 + int (dec_value ''05'') \<le> maxInt64
   \<and> timeToSeconds ''1:02:05'' = Inr 3725"
proof -
  have d: "is_decimal ''19''" "is_decimal ''50''" "is_decimal ''1''" "is_decimal ''02''"
    "is_decimal ''05''"
    by (simp_all add: is_decimal_def is_digit_def)
  have v: "dec_value ''19'' = 19" "dec_value ''50'' = 50" "dec_value ''1'' = 1"
    "dec_value ''02'' = 2" "dec_value ''05'' = 5"
    by (simp_all add: dec_value_def digit_val_def)
  note two = timeToSeconds_value [THEN conjunct1, rule_format, of "''19''" "''50''"]
  note three = timeToSeconds_value [THEN conjunct2, THEN conjunct1, rule_format,
      of "''1''" "''02''" "''05''"]
  from d v two three show ?thesis
    by (simp add: maxInt64_def)
qed

text \<open>
  C5 as stated fails: both segments of "9223372036854775808:00" are non-negative integers,
  yet \<open>strconv.Atoi\<close> reports the first as out of range and \<open>timeToSeconds\<close> returns an
  error; and "153722867280912931:00" is accepted, but minutes*60 wraps to a negative value.
\<close>

theorem timeToSeconds_value_counterexample:
  "is_decimal ''9223372036854775808'' \<and> is_decimal ''00''
   \<and> timeToSeconds ''9223372036854775808:00'' = Inl (Errorf ''invalid minutes'')
   \<and> is_decimal ''153722867280912931''
   \<and> timeToSeconds ''153722867280912931:00'' = Inr (- 9223372036854775756)"
  by (simp add: is_decimal_def timeToSeconds_def Atoi_def ParseInt_def ParseInt_range_def
      ParseUint_def is_digit_def digit_val_def maxUint64_def maxInt64_def int64_def)

text \<open>
  C6 (amended). \<open>timeToSeconds\<close> fails exactly on the inputs that are neither empty, nor
  "Unknown", nor a colon-separated text of two or three segments each of which
  \<open>strconv.Atoi\<close> accepts (an optional sign, then decimal digits, within 64 bits). In
  particular it fails on a wrong segment count ("23:45:67:89") and on a segment that is not
  a number ("ab:cd"). A negative segment is accepted.
\<close>

theorem timeToSeconds_fails_iff:
  "((\<exists>e. timeToSeconds s = Inl e) \<longleftrightarrow>
      (s \<noteq> [] \<and> s \<noteq> ''Unknown'' \<and>
       \<not> (length (Split s CHR '':'') \<in> {2, 3} \<and> list_all is_int_literal (Split s CHR '':''))))
   \<and> timeToSeconds ''23:45:67:89'' = Inl (Errorf ''invalid time format'')
   \<and> timeToSeconds ''ab:cd'' = Inl (Errorf ''invalid minutes'')"
proof (intro conjI)
  have A: "\<And>p v e. Atoi p = (v, e) \<Longrightarrow> (e = None) = is_int_literal p"
    using Atoi_None_iff by (metis snd_conv)
  show "(\<exists>e. timeToSeconds s = Inl e) \<longleftrightarrow>
      (s \<noteq> [] \<and> s \<noteq> ''Unknown'' \<and>
       \<not> (length (Split s CHR '':'') \<in> {2, 3} \<and> list_all is_int_literal (Split s CHR '':'')))"
    by (auto simp: timeToSeconds_def dest!: A split: list.splits prod.splits option.splits)
qed (simp_all add: timeToSeconds_def Atoi_def ParseInt_def ParseInt_range_def ParseUint_def
       is_digit_def digit_val_def maxUint64_def maxInt64_def int64_def)

theorem timeToSeconds_fails_iff_witness:
  "(\<exists>e. timeToSeconds ''12:3x'' = Inl e) \<and> \<not> is_int_literal ''3x''"
proof -
  have "\<not> is_int_literal ''3x''"
    by (simp add: is_int_literal_def is_decimal_def is_digit_def)
  with timeToSeconds_fails_iff [of "''12:3x''"] show ?thesis by simp
qed

text \<open>
  C6 as stated fails: "-1:30" has a negative segment and is none of the admitted inputs,
  yet \<open>timeToSeconds\<close> returns -30 and no error.
\<close>

theorem timeToSeconds_negative_counterexample:
  "\<not> spec_time_text ''-1:30'' \<and> timeToSeconds ''-1:30'' = Inr (- 30)"
  by (simp add: spec_time_text_def is_decimal_def timeToSeconds_def Atoi_def ParseInt_def
      ParseInt_range_def ParseUint_def is_digit_def digit_val_def maxUint64_def maxInt64_def
      int64_def)

section \<open>Proofs: db.go\<close>

lemmas run_defs =
  insert_or_get_location_def select_location_id_def empty_database_def next_rowid_def
  StoreEvent_def format_timestamp_def pad4_def pad2_def Itoa_def Let_def
  StoreResults_def insert_result_def

lemma fold_max_Max: "fold max ns (n::int) = Max (set (n # ns))"
  by (simp only: Max.set_eq_fold)

text \<open>
  C7 (amended). For every location, when the driver answers the query,
  \<open>GetNextEventNumber\<close> returns 1 when the location has no stored event, and otherwise
  1 plus the largest \<open>event_number\<close> among its stored events, provided that this sum is
  a value of Go's 64-bit \<open>int\<close>.
\<close>

theorem GetNextEventNumber_next:
  "\<not> qf MaxEventNumber \<longrightarrow>
     (filter (\<lambda>e. location_id e = locationID) (events_tbl db) = [] \<longrightarrow>
        GetNextEventNumber db qf locationID = 1)
     \<and> (filter (\<lambda>e. location_id e = locationID) (events_tbl db) \<noteq> []
          \<and> is_int64 (1 + Max (set (map event_number
                                       (filter (\<lambda>e. location_id e = locationID) (events_tbl db)))))
        \<longrightarrow>
        GetNextEventNumber db qf locationID =
          1 + Max (set (map event_number
                          (filter (\<lambda>e. location_id e = locationID) (events_tbl db)))))"
proof (intro conjI impI)
  assume "\<not> qf MaxEventNumber"
    and "filter (\<lambda>e. location_id e = locationID) (events_tbl db) = []"
  then show "GetNextEventNumber db qf locationID = 1"
    by (simp add: GetNextEventNumber_def select_max_event_number_def int64_def)
next
  let ?es = "filter (\<lambda>e. location_id e = locationID) (events_tbl db)"
  assume q: "\<not> qf MaxEventNumber"
    and h: "?es \<noteq> [] \<and> is_int64 (1 + Max (set (map event_number ?es)))"
  then obtain n ns where m: "map event_number ?es = n # ns"
    by (cases "map event_number ?es") auto
  have f: "fold max ns n = Max (set (n # ns))"
    by (rule fold_max_Max)
  from h have "int64 (1 + Max (set (map event_number ?es))) = 1 + Max (set (map event_number ?es))"
    by (intro int64_is_int64) simp
  with q m f show "GetNextEventNumber db qf locationID = 1 + Max (set (map event_number ?es))"
    by (simp add: GetNextEventNumber_def select_max_event_number_def add.commute)
qed

text \<open>On an empty database the answer is 1; after storing the events 1 and 2 it is 3.\<close>

theorem GetNextEventNumber_next_witness:
  "GetNextEventNumber empty_database (\<lambda>q. False) 1 = 1
   \<and> map event_number (filter (\<lambda>e. location_id e = 1) (events_tbl db_two_events)) = [1, 2]
   \<and> is_int64 (1 + Max (set [1, 2]))
   \<and> GetNextEventNumber db_two_events (\<lambda>q. False) 1 = 3
   \<and> GetNextEventNumber db_two_events (\<lambda>q. False) 2 = 1"
proof -
  have es: "map event_number (filter (\<lambda>e. location_id e = 1) (events_tbl db_two_events)) = [1, 2]"
    by (simp add: db_two_events_def run_defs)
  have es2: "filter (\<lambda>e. location_id e = 2) (events_tbl db_two_events) = []"
    by (simp add: db_two_events_def run_defs)
  have ne: "filter (\<lambda>e. location_id e = 1) (events_tbl db_two_events) \<noteq> []"
    using es by auto
  have r: "is_int64 (1 + Max (set [1, 2]))"
    by (simp add: is_int64_def maxInt64_def)
  from GetNextEventNumber_next [of "\<lambda>q. False" 1 empty_database]
  have 1: "GetNextEventNumber empty_database (\<lambda>q. False) 1 = 1"
    by (simp add: empty_database_def)
  from GetNextEventNumber_next [of "\<lambda>q. False" 1 db_two_events] ne r
  have 2: "GetNextEventNumber db_two_events (\<lambda>q. False) 1 = 3"
    unfolding es by simp
  from GetNextEventNumber_next [of "\<lambda>q. False" 2 db_two_events] es2
  have 3: "GetNextEventNumber db_two_events (\<lambda>q. False) 2 = 1"
    by simp
  from es r 1 2 3 show ?thesis by simp
qed

text \<open>
  C7 as stated fails. With the events 1 and 2 stored, a query that the driver fails
  makes the function return 1, not 3. And when the largest stored event number is
  9223372036854775807, the sum wraps and the function returns -9223372036854775808.
\<close>

theorem GetNextEventNumber_counterexample:
  "map event_number (filter (\<lambda>e. location_id e = 1) (events_tbl db_two_events)) = [1, 2]
   \<and> GetNextEventNumber db_two_events (\<lambda>q. q = MaxEventNumber) 1 = 1
   \<and> map event_number (filter (\<lambda>e. location_id e = 1) (events_tbl db_last_event))
       = [9223372036854775807]
   \<and> GetNextEventNumber db_last_event (\<lambda>q. False) 1 = - 9223372036854775808"
  by (simp add: db_two_events_def db_last_event_def run_defs GetNextEventNumber_def
      select_max_event_number_def int64_def)

text \<open>The two revisions differ on a location without events: 2 against 1.\<close>

lemma getNextEventNumber_revisions:
  "getNextEventNumber empty_database (\<lambda>q. False) 1 = 2
   \<and> GetNextEventNumber empty_database (\<lambda>q. False) 1 = 1"
  by (simp add: getNextEventNumber_def GetNextEventNumber_def select_max_event_number_def
      empty_database_def int64_def)

lemmas clear_defs = ClearLocationData_def delete_results_of_location_def
  delete_events_of_location_def delete_location_def

text \<open>
  C8. For a stored slug and a driver that fails no statement, \<open>ClearLocationData\<close>
  sends, inside one transaction, the deletion of the results of the location's events,
  then of those events, then of the location's row, and commits: exactly the rows of the
  location are gone and every other row is untouched. When any statement fails it returns
  an error and the tables are as before; a failure after \<open>Begin\<close> and before \<open>Commit\<close>
  is answered with \<open>Rollback\<close>. For a slug that is not stored it returns no error and
  changes nothing.
\<close>

theorem ClearLocationData_transaction:
  "(select_location_id db urlSlug = Inr locationID \<and> (\<forall>s. \<not> fails s) \<longrightarrow>
      ClearLocationData db fails urlSlug =
        (None, cleared db locationID,
         [SelectLocation, Begin, DeleteResults, DeleteEvents, DeleteLocation, Commit]))
   \<and> (select_location_id db urlSlug = Inr locationID \<and> (\<exists>s. s \<noteq> Rollback \<and> fails s) \<longrightarrow>
      (\<exists>err sent. ClearLocationData db fails urlSlug = (Some err, db, sent)))
   \<and> (select_location_id db urlSlug = Inr locationID \<and> \<not> fails SelectLocation \<and> \<not> fails Begin
        \<and> (fails DeleteResults \<or> fails DeleteEvents \<or> fails DeleteLocation) \<longrightarrow>
      (\<exists>err sent. ClearLocationData db fails urlSlug = (Some err, db, sent @ [Rollback])))
   \<and> ((\<forall>l \<in> set (locations_tbl db). slug l \<noteq> urlSlug) \<and> \<not> fails SelectLocation \<longrightarrow>
      ClearLocationData db fails urlSlug = (None, db, [SelectLocation]))
   \<and> (\<forall>err db' sent. ClearLocationData db fails urlSlug = (Some err, db', sent) \<longrightarrow> db' = db)"
proof (intro conjI impI allI)
  assume "select_location_id db urlSlug = Inr locationID \<and> (\<forall>s. \<not> fails s)"
  then show "ClearLocationData db fails urlSlug =
        (None, cleared db locationID,
         [SelectLocation, Begin, DeleteResults, DeleteEvents, DeleteLocation, Commit])"
    by (simp add: clear_defs cleared_def)
next
  assume h: "select_location_id db urlSlug = Inr locationID \<and> (\<exists>s. s \<noteq> Rollback \<and> fails s)"
  then obtain s where s: "s \<noteq> Rollback" "fails s" by blast
  then have "fails SelectLocation \<or> fails Begin \<or> fails DeleteResults \<or> fails DeleteEvents
      \<or> fails DeleteLocation \<or> fails Commit"
    by (cases s) auto
  with h show "\<exists>err sent. ClearLocationData db fails urlSlug = (Some err, db, sent)"
    by (auto simp: clear_defs)
next
  assume "select_location_id db urlSlug = Inr locationID \<and> \<not> fails SelectLocation \<and> \<not> fails Begin
        \<and> (fails DeleteResults \<or> fails DeleteEvents \<or> fails DeleteLocation)"
  then show "\<exists>err sent. ClearLocationData db fails urlSlug = (Some err, db, sent @ [Rollback])"
    by (auto simp: clear_defs)
next
  assume h: "(\<forall>l \<in> set (locations_tbl db). slug l \<noteq> urlSlug) \<and> \<not> fails SelectLocation"
  then have "filter (\<lambda>l. slug l = urlSlug) (locations_tbl db) = []"
    by (simp add: filter_empty_conv)
  with h show "ClearLocationData db fails urlSlug = (None, db, [SelectLocation])"
    by (simp add: clear_defs select_location_id_def)
next
  fix err db' sent
  assume "ClearLocationData db fails urlSlug = (Some err, db', sent)"
  then show "db' = db"
    by (auto simp: clear_defs Let_def split: if_splits sum.splits)
qed

text \<open>
  The run of \<open>TestClearLocationData\<close>: clearing location-1 leaves location-2 with its
  event and its result; a failing commit, or a failing deletion of the events or of the
  location, changes nothing; an unknown slug changes nothing.
\<close>

theorem ClearLocationData_transaction_witness:
  "select_location_id db_clear ''location-1'' = Inr 1
   \<and> ClearLocationData db_clear (\<lambda>s. False) ''location-1'' =
       (None,
        \<lparr>locations_tbl =
           [\<lparr>loc_id = 2, slug = ''location-2'', loc_name = None, country = ''AUS''\<rparr>],
         events_tbl =
           [\<lparr>ev_id = 2, event_number = 1, location_id = 2, date = ''2023-01-01'',
             url = ''http://example.com/2''\<rparr>],
         results_tbl =
           [\<lparr>res_id = 2, position = 1, name = ''Runner B'', time_seconds = Some 1300,
             age_grade = None, age_category = None, res_note = None, total_runs = None,
             event_id = Some 2\<rparr>],
         seq_locations = 2, seq_events = 2, seq_results = 2\<rparr>,
        [SelectLocation, Begin, DeleteResults, DeleteEvents, DeleteLocation, Commit])
   \<and> (\<exists>err sent. ClearLocationData db_clear (\<lambda>s. s = Commit) ''location-1''
         = (Some err, db_clear, sent))
   \<and> (\<exists>err sent. ClearLocationData db_clear (\<lambda>s. s = DeleteEvents) ''location-1''
         = (Some err, db_clear, sent @ [Rollback]))
   \<and> ClearLocationData db_clear (\<lambda>s. False) ''nowhere'' = (None, db_clear, [SelectLocation])
   \<and> fst (snd (ClearLocationData db_clear (\<lambda>s. s = DeleteLocation) ''location-1''))
       = db_clear"
proof -
  have sel: "select_location_id db_clear ''location-1'' = Inr 1"
    by (simp add: select_location_id_def db_clear_def)
  have c: "cleared db_clear 1 = \<lparr>locations_tbl =
           [\<lparr>loc_id = 2, slug = ''location-2'', loc_name = None, country = ''AUS''\<rparr>],
         events_tbl =
           [\<lparr>ev_id = 2, event_number = 1, location_id = 2, date = ''2023-01-01'',
             url = ''http://example.com/2''\<rparr>],
         results_tbl =
           [\<lparr>res_id = 2, position = 1, name = ''Runner B'', time_seconds = Some 1300,
             age_grade = None, age_category = None, res_note = None, total_runs = None,
             event_id = Some 2\<rparr>],
         seq_locations = 2, seq_events = 2, seq_results = 2\<rparr>"
    by (simp add: cleared_def db_clear_def)
  note T = ClearLocationData_transaction
  have 1: "ClearLocationData db_clear (\<lambda>s. False) ''location-1'' =
        (None, cleared db_clear 1,
         [SelectLocation, Begin, DeleteResults, DeleteEvents, DeleteLocation, Commit])"
    using T [of db_clear "''location-1''" 1 "\<lambda>s. False", THEN conjunct1] sel by simp
  have 2: "\<exists>err sent. ClearLocationData db_clear (\<lambda>s. s = Commit) ''location-1''
         = (Some err, db_clear, sent)"
    using T [of db_clear "''location-1''" 1 "\<lambda>s. s = Commit",
        THEN conjunct2, THEN conjunct1] sel
    by auto
  have 3: "\<exists>err sent. ClearLocationData db_clear (\<lambda>s. s = DeleteEvents) ''location-1''
         = (Some err, db_clear, sent @ [Rollback])"
    using T [of db_clear "''location-1''" 1 "\<lambda>s. s = DeleteEvents",
        THEN conjunct2, THEN conjunct2, THEN conjunct1] sel
    by simp
  have 4: "ClearLocationData db_clear (\<lambda>s. False) ''nowhere''
      = (None, db_clear, [SelectLocation])"
    using T [of db_clear "''nowhere''" 0 "\<lambda>s. False",
        THEN conjunct2, THEN conjunct2, THEN conjunct2, THEN conjunct1]
    by (simp add: db_clear_def)
  obtain err sent where
    "ClearLocationData db_clear (\<lambda>s. s = DeleteLocation) ''location-1''
      = (Some err, db_clear, sent)"
    using T [of db_clear "''location-1''" 1 "\<lambda>s. s = DeleteLocation",
        THEN conjunct2, THEN conjunct1] sel
    by auto
  then have 5: "fst (snd (ClearLocationData db_clear (\<lambda>s. s = DeleteLocation)
      ''location-1'')) = db_clear"
    using T [of db_clear "''location-1''" 1 "\<lambda>s. s = DeleteLocation",
        THEN conjunct2, THEN conjunct2, THEN conjunct2, THEN conjunct2, rule_format,
        of err db_clear sent]
    by simp
  from sel c 1 2 3 4 5 show ?thesis by simp
qed

text \<open>
  C2 fails on the code. Storing the stored event 1 of location 1 again, with the same
  result row, replaces the event's row by one with a new id (2 instead of 1); the result
  is then inserted under the new id and collides with nothing, so the old result row
  stays behind, owned by no event, and the results table grows from one row to two.
\<close>

theorem store_twice_duplicates_results:
  "map ev_id (events_tbl db_stored_once) = [1]
   \<and> map (\<lambda>r. (res_id r, position r, event_id r)) (results_tbl db_stored_once)
       = [(1, 1, Some 1)]
   \<and> map ev_id (events_tbl (store_page db_stored_once event1 results1)) = [2]
   \<and> map (\<lambda>r. (res_id r, position r, event_id r))
         (results_tbl (store_page db_stored_once event1 results1))
       = [(1, 1, Some 1), (2, 1, Some 2)]
   \<and> store_page db_stored_once event1 results1 \<noteq> db_stored_once"
proof -
  have once: "db_stored_once =
      \<lparr>locations_tbl =
         [\<lparr>loc_id = 1, slug = ''test-location'', loc_name = None, country = ''AUS''\<rparr>],
       events_tbl =
         [\<lparr>ev_id = 1, event_number = 1, location_id = 1,
           date = ''2023-01-01 00:00:00+00:00'', url = ''http://example.com/1''\<rparr>],
       results_tbl =
         [\<lparr>res_id = 1, position = 1, name = ''Runner A'', time_seconds = Some 1200,
           age_grade = Some ''65.5%'', age_category = Some ''VM35-39'', res_note = Some [],
           total_runs = Some 10, event_id = Some 1\<rparr>],
       seq_locations = 1, seq_events = 1, seq_results = 1\<rparr>"
    by (simp add: db_stored_once_def store_page_def event1_def results1_def run_defs)
  have twice: "store_page db_stored_once event1 results1 =
      \<lparr>locations_tbl =
         [\<lparr>loc_id = 1, slug = ''test-location'', loc_name = None, country = ''AUS''\<rparr>],
       events_tbl =
         [\<lparr>ev_id = 2, event_number = 1, location_id = 1,
           date = ''2023-01-01 00:00:00+00:00'', url = ''http://example.com/1''\<rparr>],
       results_tbl =
         [\<lparr>res_id = 1, position = 1, name = ''Runner A'', time_seconds = Some 1200,
           age_grade = Some ''65.5%'', age_category = Some ''VM35-39'', res_note = Some [],
           total_runs = Some 10, event_id = Some 1\<rparr>,
          \<lparr>res_id = 2, position = 1, name = ''Runner A'', time_seconds = Some 1200,
           age_grade = Some ''65.5%'', age_category = Some ''VM35-39'', res_note = Some [],
           total_runs = Some 10, event_id = Some 2\<rparr>],
       seq_locations = 1, seq_events = 2, seq_results = 2\<rparr>"
    unfolding once by (simp add: store_page_def event1_def results1_def run_defs)
  show ?thesis
    unfolding twice unfolding once by simp
qed

section \<open>Proofs: scrapeEvent\<close>

lemmas scrape_defs = scrape_row_def AttrOr_def TrimSpace_def is_space_def is_space2_def
  is_space3_def timeToSeconds_def
  Atoi_def ParseInt_def ParseInt_range_def ParseUint_def is_digit_def digit_val_def
  maxUint64_def maxInt64_def int64_def

text \<open>
  C4 fails on the code. A row with no position attribute, or with a position that is zero,
  negative or not a number, is returned like any other (its position is 0, or the negative
  number) and counted as processed; the only rows skipped are those of a named runner
  whose time does not parse.
\<close>

theorem scrape_rows_keeps_bad_position:
  "scrape_rows [row_without_position] =
     ([\<lparr>Position = 0, Name = ''Runner A'', Time = ''19:50'', TimeSeconds = 1190,
        AgeGrade = ''65.5%'', AgeCategory = ''VM35-39'', Note = [], TotalRuns = 10,
        EventID = 0\<rparr>], 1, 0)
   \<and> map Position (fst (scrape_rows
         [row_without_position\<lparr>data_position := Some ''0''\<rparr>,
          row_without_position\<lparr>data_position := Some ''-3''\<rparr>,
          row_without_position\<lparr>data_position := Some ''first''\<rparr>])) = [0, - 3, 0]
   \<and> scrape_rows [row_without_position\<lparr>data_position := Some ''7'', time_compact := ''n/a''\<rparr>]
       = ([], 0, 1)"
  by (simp add: row_without_position_def scrape_defs)

section \<open>Proofs: the ingest loop\<close>

lemma ParseResults_status:
  "400 \<le> status \<Longrightarrow>
   ParseResults tp (Response status body) urlSlug n = Inl (HTTPError status ''HTTP error'')"
  by (simp add: ParseResults_def scrapeEvent_def)

text \<open>
  The error counter stays between 0 and 2 at the head of the loop: the loop starts with
  0, and a pass that makes it 3 leaves the loop.
\<close>

lemma loop_body_counter_range:
  assumes "loop_body tp urlSlug locationID st w = Continue st'"
    and "0 \<le> consecutiveErrors st" and "consecutiveErrors st < 3"
  shows "0 \<le> consecutiveErrors st' \<and> consecutiveErrors st' < 3"
proof -
  from assms(2,3) have i: "int64 (consecutiveErrors st + 1) = consecutiveErrors st + 1"
    by (intro int64_id) simp_all
  from assms show ?thesis
    by (auto simp: loop_body_def count_error_def Let_def i StoreEvent_def
        split: sum.splits error.splits if_splits prod.splits)
qed

text \<open>
  C1 (amended). One pass of the loop: on status 405 it sleeps 180 seconds and goes on with
  the same event number and the same error counter; on status 425 it returns and no
  further reply is read; on any other failed fetch it adds one to the counter and, when
  that makes 3, stops with the notice, otherwise sleeps 5 seconds and retries the same
  event number; every successful fetch sets the counter to zero and, when the event's row
  is stored, moves on to the next event number after 5 seconds. The counter and the event
  number are Go \<open>int\<close>s, and the sums are taken where they are values of that type.
\<close>

theorem loop_body_steps:
  "(\<forall>body. reply w = Response 405 body \<longrightarrow>
      loop_body tp urlSlug locationID st w = Continue (st\<lparr>slept := slept st @ [180]\<rparr>)
      \<and> run_loop tp urlSlug locationID st (w # ws)
          = run_loop tp urlSlug locationID (st\<lparr>slept := slept st @ [180]\<rparr>) ws)
   \<and> (\<forall>body. reply w = Response 425 body \<longrightarrow>
      loop_body tp urlSlug locationID st w = Return st
      \<and> run_loop tp urlSlug locationID st (w # ws) = Returned st)
   \<and> (\<forall>err. ParseResults tp (reply w) urlSlug (eventID st) = Inl err
         \<and> (\<forall>msg. err \<noteq> HTTPError 405 msg \<and> err \<noteq> HTTPError 425 msg)
         \<and> is_int64 (consecutiveErrors st + 1) \<longrightarrow>
      loop_body tp urlSlug locationID st w =
        (if consecutiveErrors st + 1 \<ge> 3
         then Break (st\<lparr>consecutiveErrors := consecutiveErrors st + 1\<rparr>)
         else Continue (st\<lparr>consecutiveErrors := consecutiveErrors st + 1,
                           slept := slept st @ [5]\<rparr>)))
   \<and> (\<forall>sc. ParseResults tp (reply w) urlSlug (eventID st) = Inr sc \<longrightarrow>
      (\<exists>st'. loop_body tp urlSlug locationID st w = Continue st'
             \<and> consecutiveErrors st' = 0))
   \<and> (\<forall>sc. ParseResults tp (reply w) urlSlug (eventID st) = Inr sc \<and> \<not> event_exec_fails w
         \<and> is_int64 (eventID st + 1) \<longrightarrow>
      (\<exists>st'. loop_body tp urlSlug locationID st w = Continue st'
             \<and> consecutiveErrors st' = 0 \<and> eventID st' = eventID st + 1
             \<and> slept st' = slept st @ [5]))"
proof (intro conjI allI impI)
  fix body
  assume r: "reply w = Response 405 body"
  then show b: "loop_body tp urlSlug locationID st w = Continue (st\<lparr>slept := slept st @ [180]\<rparr>)"
    by (simp add: loop_body_def ParseResults_status)
  then show "run_loop tp urlSlug locationID st (w # ws)
          = run_loop tp urlSlug locationID (st\<lparr>slept := slept st @ [180]\<rparr>) ws"
    by simp
next
  fix body
  assume r: "reply w = Response 425 body"
  then show b: "loop_body tp urlSlug locationID st w = Return st"
    by (simp add: loop_body_def ParseResults_status)
  then show "run_loop tp urlSlug locationID st (w # ws) = Returned st"
    by simp
next
  fix err
  assume h: "ParseResults tp (reply w) urlSlug (eventID st) = Inl err
         \<and> (\<forall>msg. err \<noteq> HTTPError 405 msg \<and> err \<noteq> HTTPError 425 msg)
         \<and> is_int64 (consecutiveErrors st + 1)"
  then have i: "int64 (consecutiveErrors st + 1) = consecutiveErrors st + 1"
    by (intro int64_is_int64) simp
  from h show "loop_body tp urlSlug locationID st w =
        (if consecutiveErrors st + 1 \<ge> 3
         then Break (st\<lparr>consecutiveErrors := consecutiveErrors st + 1\<rparr>)
         else Continue (st\<lparr>consecutiveErrors := consecutiveErrors st + 1,
                           slept := slept st @ [5]\<rparr>))"
    by (cases err) (auto simp: loop_body_def count_error_def Let_def i)
next
  fix sc
  assume "ParseResults tp (reply w) urlSlug (eventID st) = Inr sc"
  then show "\<exists>st'. loop_body tp urlSlug locationID st w = Continue st'
             \<and> consecutiveErrors st' = 0"
    by (cases "event_exec_fails w") (simp_all add: loop_body_def StoreEvent_def Let_def)
next
  fix sc
  assume h: "ParseResults tp (reply w) urlSlug (eventID st) = Inr sc \<and> \<not> event_exec_fails w
         \<and> is_int64 (eventID st + 1)"
  then have i: "int64 (eventID st + 1) = eventID st + 1"
    by (intro int64_is_int64) simp
  from h show "\<exists>st'. loop_body tp urlSlug locationID st w = Continue st'
             \<and> consecutiveErrors st' = 0 \<and> eventID st' = eventID st + 1
             \<and> slept st' = slept st @ [5]"
    by (simp add: loop_body_def StoreEvent_def Let_def i)
qed

lemmas loop_defs = loop_body_def count_error_def ParseResults_def scrapeEvent_def
  parseEventDate_def parse_stored_date_def state3_def answer_def page1_def

text \<open>
  Runs from event 3 with two errors counted. 405, then 425: the loop returns after
  sleeping 180 seconds, the counter still at 2, and does not read the third reply. 405,
  then 500: the third error stops the loop. 405, then a good page, then 425: the loop
  ends at event 4 with the counter at zero after sleeping 180 and 5 seconds. A transport
  error with the counter at zero counts one and retries after 5 seconds. A good page whose
  event row the driver refuses still sets the counter to zero.
\<close>

theorem loop_body_steps_witness:
  "run_loop parse_stored_date ''test-location'' 1 state3
     [answer (Response 405 None), answer (Response 425 None), answer (Response 200 (Some page1))]
     = Returned (state3\<lparr>slept := [180]\<rparr>)
   \<and> is_int64 (consecutiveErrors state3 + 1)
   \<and> run_loop parse_stored_date ''test-location'' 1 state3
     [answer (Response 405 None), answer (Response 500 None), answer (Response 200 (Some page1))]
     = Broke (state3\<lparr>consecutiveErrors := 3, slept := [180]\<rparr>)
   \<and> loop_body parse_stored_date ''test-location'' 1 (state3\<lparr>consecutiveErrors := 0\<rparr>)
       (answer TransportError)
     = Continue (state3\<lparr>consecutiveErrors := 1, slept := [5]\<rparr>)
   \<and> is_int64 (eventID state3 + 1)
   \<and> (\<exists>st'. loop_body parse_stored_date ''test-location'' 1 state3
               (answer (Response 200 (Some page1))) = Continue st'
            \<and> consecutiveErrors st' = 0 \<and> eventID st' = 4 \<and> slept st' = [5])
   \<and> (\<exists>st'. run_loop parse_stored_date ''test-location'' 1 state3
               [answer (Response 405 None), answer (Response 200 (Some page1)),
                answer (Response 425 None)] = Returned st'
            \<and> consecutiveErrors st' = 0 \<and> eventID st' = 4 \<and> slept st' = [180, 5])
   \<and> (\<exists>st'. loop_body parse_stored_date ''test-location'' 1 state3
               ((answer (Response 200 (Some page1)))\<lparr>event_exec_fails := True\<rparr>) = Continue st'
            \<and> consecutiveErrors st' = 0)"
proof -
  note T = loop_body_steps [where tp = parse_stored_date and urlSlug = "''test-location''"
      and locationID = 1]
  have r2: "is_int64 (consecutiveErrors state3 + 1)" "is_int64 (eventID state3 + 1)"
    by (simp_all add: state3_def is_int64_def maxInt64_def)
  have r1: "is_int64 (consecutiveErrors (state3\<lparr>slept := [180]\<rparr>) + 1)"
    "is_int64 (eventID (state3\<lparr>slept := [180]\<rparr>) + 1)"
    "is_int64 (consecutiveErrors (state3\<lparr>consecutiveErrors := 0\<rparr>) + 1)"
    by (simp_all add: state3_def is_int64_def maxInt64_def)
  have 1: "run_loop parse_stored_date ''test-location'' 1 state3
     [answer (Response 405 None), answer (Response 425 None), answer (Response 200 (Some page1))]
     = Returned (state3\<lparr>slept := [180]\<rparr>)"
    using T [where w = "answer (Response 405 None)" and st = state3, THEN conjunct1]
      T [where w = "answer (Response 425 None)" and st = "state3\<lparr>slept := [180]\<rparr>",
         THEN conjunct2, THEN conjunct1]
    by (simp add: answer_def state3_def)
  have e500: "ParseResults parse_stored_date (Response 500 None) ''test-location'' 3
      = Inl (HTTPError 500 ''HTTP error'')"
    by (simp add: ParseResults_status)
  have 2: "run_loop parse_stored_date ''test-location'' 1 state3
     [answer (Response 405 None), answer (Response 500 None), answer (Response 200 (Some page1))]
     = Broke (state3\<lparr>consecutiveErrors := 3, slept := [180]\<rparr>)"
    using T [where w = "answer (Response 405 None)" and st = state3, THEN conjunct1]
      T [where w = "answer (Response 500 None)" and st = "state3\<lparr>slept := [180]\<rparr>",
         THEN conjunct2, THEN conjunct2, THEN conjunct1] e500 r1(1)
    by (simp add: answer_def state3_def)
  have tr: "ParseResults parse_stored_date TransportError ''test-location'' 3
      = Inl (Errorf ''failed to make HTTP request'')"
    by (simp add: ParseResults_def scrapeEvent_def)
  have 3: "loop_body parse_stored_date ''test-location'' 1 (state3\<lparr>consecutiveErrors := 0\<rparr>)
       (answer TransportError)
     = Continue (state3\<lparr>consecutiveErrors := 1, slept := [5]\<rparr>)"
    using T [where w = "answer TransportError" and st = "state3\<lparr>consecutiveErrors := 0\<rparr>",
         THEN conjunct2, THEN conjunct2, THEN conjunct1] tr r1(3)
    by (simp add: answer_def state3_def)
  have ok: "ParseResults parse_stored_date (Response 200 (Some page1)) ''test-location'' 3 =
      Inr \<lparr>scraped_event =
             \<lparr>EventNumber = 3, LocationID = 0, Date = MkTime 1 1 1,
              URL = ''https://www.parkrun.com.au/test-location/results/3/''\<rparr>,
           scraped_results =
             [\<lparr>Position = 1, Name = ''Runner A'', Time = ''19:50'', TimeSeconds = 1190,
               AgeGrade = ''65.5%'', AgeCategory = ''VM35-39'', Note = [], TotalRuns = 10,
               EventID = 0\<rparr>],
           processedRows = 1, skippedRows = 0\<rparr>"
    by (simp add: loop_defs scrape_defs Itoa_def zero_time_def)
  have 4: "\<exists>st'. loop_body parse_stored_date ''test-location'' 1 state3
               (answer (Response 200 (Some page1))) = Continue st'
            \<and> consecutiveErrors st' = 0 \<and> eventID st' = 4 \<and> slept st' = [5]"
    using T [where w = "answer (Response 200 (Some page1))" and st = state3,
        THEN conjunct2, THEN conjunct2, THEN conjunct2, THEN conjunct2] ok r2(2)
    by (simp add: answer_def state3_def)
  have ok': "ParseResults parse_stored_date (Response 200 (Some page1)) ''test-location''
      (eventID (state3\<lparr>slept := [180]\<rparr>)) =
      Inr \<lparr>scraped_event =
             \<lparr>EventNumber = 3, LocationID = 0, Date = MkTime 1 1 1,
              URL = ''https://www.parkrun.com.au/test-location/results/3/''\<rparr>,
           scraped_results =
             [\<lparr>Position = 1, Name = ''Runner A'', Time = ''19:50'', TimeSeconds = 1190,
               AgeGrade = ''65.5%'', AgeCategory = ''VM35-39'', Note = [], TotalRuns = 10,
               EventID = 0\<rparr>],
           processedRows = 1, skippedRows = 0\<rparr>"
    using ok by (simp add: state3_def)
  obtain st1 where st1: "loop_body parse_stored_date ''test-location'' 1
        (state3\<lparr>slept := [180]\<rparr>) (answer (Response 200 (Some page1))) = Continue st1"
      "consecutiveErrors st1 = 0" "eventID st1 = 4" "slept st1 = [180, 5]"
    using T [where w = "answer (Response 200 (Some page1))"
        and st = "state3\<lparr>slept := [180]\<rparr>",
        THEN conjunct2, THEN conjunct2, THEN conjunct2, THEN conjunct2] ok' r1(2)
    by (auto simp: answer_def state3_def)
  have 5: "\<exists>st'. run_loop parse_stored_date ''test-location'' 1 state3
               [answer (Response 405 None), answer (Response 200 (Some page1)),
                answer (Response 425 None)] = Returned st'
            \<and> consecutiveErrors st' = 0 \<and> eventID st' = 4 \<and> slept st' = [180, 5]"
    using T [where w = "answer (Response 405 None)" and st = state3, THEN conjunct1]
      T [where w = "answer (Response 425 None)" and st = st1, THEN conjunct2, THEN conjunct1]
      st1
    by (simp add: answer_def state3_def)
  have 6: "\<exists>st'. loop_body parse_stored_date ''test-location'' 1 state3
               ((answer (Response 200 (Some page1)))\<lparr>event_exec_fails := True\<rparr>) = Continue st'
            \<and> consecutiveErrors st' = 0"
    using T [where w = "(answer (Response 200 (Some page1)))\<lparr>event_exec_fails := True\<rparr>"
        and st = state3,
        THEN conjunct2, THEN conjunct2, THEN conjunct2, THEN conjunct1] ok
    by (simp add: answer_def state3_def)
  from 1 r2 2 3 4 5 6 show ?thesis by simp
qed

text \<open>
  C1 as stated fails. The fetch of event 3 succeeds, the driver fails the event's
  \<open>INSERT\<close>, and the loop goes on with event number 3, not 4. And after a successful
  fetch and store of event 9223372036854775807 the event number wraps to
  -9223372036854775808.
\<close>

theorem loop_store_failure_counterexample:
  "ParseResults parse_stored_date (Response 200 (Some page1)) ''test-location'' 3 =
      Inr \<lparr>scraped_event =
             \<lparr>EventNumber = 3, LocationID = 0, Date = MkTime 1 1 1,
              URL = ''https://www.parkrun.com.au/test-location/results/3/''\<rparr>,
           scraped_results =
             [\<lparr>Position = 1, Name = ''Runner A'', Time = ''19:50'', TimeSeconds = 1190,
               AgeGrade = ''65.5%'', AgeCategory = ''VM35-39'', Note = [], TotalRuns = 10,
               EventID = 0\<rparr>],
           processedRows = 1, skippedRows = 0\<rparr>
   \<and> loop_body parse_stored_date ''test-location'' 1 state3
        \<lparr>reply = Response 200 (Some page1), event_exec_fails = True, results_failing = []\<rparr>
      = Continue \<lparr>eventID = 3, consecutiveErrors = 0, store = db_two_events, slept = []\<rparr>
   \<and> (\<exists>sc. ParseResults parse_stored_date (Response 200 (Some page1)) ''test-location''
              9223372036854775807 = Inr sc)
   \<and> (\<exists>st'. loop_body parse_stored_date ''test-location'' 1
              (state3\<lparr>eventID := 9223372036854775807\<rparr>)
              \<lparr>reply = Response 200 (Some page1), event_exec_fails = False,
               results_failing = []\<rparr>
            = Continue st'
          \<and> eventID st' = - 9223372036854775808)"
proof -
  have a: "ParseResults parse_stored_date (Response 200 (Some page1)) ''test-location'' 3 =
      Inr \<lparr>scraped_event =
             \<lparr>EventNumber = 3, LocationID = 0, Date = MkTime 1 1 1,
              URL = ''https://www.parkrun.com.au/test-location/results/3/''\<rparr>,
           scraped_results =
             [\<lparr>Position = 1, Name = ''Runner A'', Time = ''19:50'', TimeSeconds = 1190,
               AgeGrade = ''65.5%'', AgeCategory = ''VM35-39'', Note = [], TotalRuns = 10,
               EventID = 0\<rparr>],
           processedRows = 1, skippedRows = 0\<rparr>"
    by (simp add: loop_defs scrape_defs Itoa_def zero_time_def)
  have b: "loop_body parse_stored_date ''test-location'' 1 state3
        \<lparr>reply = Response 200 (Some page1), event_exec_fails = True, results_failing = []\<rparr>
      = Continue \<lparr>eventID = 3, consecutiveErrors = 0, store = db_two_events, slept = []\<rparr>"
    by (simp add: loop_defs scrape_defs Itoa_def zero_time_def run_defs)
  have c: "\<exists>sc. ParseResults parse_stored_date (Response 200 (Some page1)) ''test-location''
              9223372036854775807 = Inr sc"
    by (simp add: ParseResults_def scrapeEvent_def Let_def split: prod.splits)
  then obtain sc where sc: "ParseResults parse_stored_date (Response 200 (Some page1))
      ''test-location'' 9223372036854775807 = Inr sc" ..
  have d: "\<exists>st'. loop_body parse_stored_date ''test-location'' 1
              (state3\<lparr>eventID := 9223372036854775807\<rparr>)
              \<lparr>reply = Response 200 (Some page1), event_exec_fails = False,
               results_failing = []\<rparr>
            = Continue st'
          \<and> eventID st' = - 9223372036854775808"
    using sc by (simp add: loop_body_def StoreEvent_def Let_def state3_def int64_def)
  from a b c d show ?thesis by simp
qed

section \<open>Proofs: reports.go\<close>

lemmas db_unknown_defs = db_unknown_def store_page_def event1_def runnerA_def runnerB_def
  unknown_runner_def run_defs

lemmas parse_defs = parse_stored_date_def parse_ymd_def days_in_def is_digit_def
  dec_value_def digit_val_def parseDateTime_def

lemma db_unknown_tables:
  "db_unknown =
      \<lparr>locations_tbl =
         [\<lparr>loc_id = 1, slug = ''test-location'', loc_name = None, country = ''AUS''\<rparr>],
       events_tbl =
         [\<lparr>ev_id = 1, event_number = 1, location_id = 1,
           date = ''2023-01-01 00:00:00+00:00'', url = ''http://example.com/1''\<rparr>,
          \<lparr>ev_id = 2, event_number = 2, location_id = 1,
           date = ''2023-01-08 00:00:00+00:00'', url = ''http://example.com/2''\<rparr>],
       results_tbl =
         [\<lparr>res_id = 1, position = 1, name = ''Runner A'', time_seconds = Some 1200,
           age_grade = Some ''65.5%'', age_category = Some ''VM35-39'', res_note = Some [],
           total_runs = Some 10, event_id = Some 1\<rparr>,
          \<lparr>res_id = 2, position = 2, name = ''Unknown'', time_seconds = None,
           age_grade = Some [], age_category = Some [], res_note = Some [],
           total_runs = Some 0, event_id = Some 1\<rparr>,
          \<lparr>res_id = 3, position = 1, name = ''Runner A'', time_seconds = Some 1200,
           age_grade = Some ''65.5%'', age_category = Some ''VM35-39'', res_note = Some [],
           total_runs = Some 10, event_id = Some 2\<rparr>,
          \<lparr>res_id = 4, position = 2, name = ''Unknown'', time_seconds = None,
           age_grade = Some [], age_category = Some [], res_note = Some [],
           total_runs = Some 0, event_id = Some 2\<rparr>,
          \<lparr>res_id = 5, position = 3, name = ''Runner B'', time_seconds = Some 1300,
           age_grade = Some ''60.1%'', age_category = Some ''VW35-39'', res_note = Some [],
           total_runs = Some 4, event_id = Some 2\<rparr>],
       seq_locations = 1, seq_events = 2, seq_results = 5\<rparr>"
  by (simp add: db_unknown_defs)

text \<open>
  C9 fails on the code. With the anonymised runner "Unknown" in both events next to two
  named runners, the top-participants report lists the two named runners only, but the
  location summary counts three distinct runners, "Unknown" among them: its query has no
  condition on the name.
\<close>

theorem total_runners_counts_unknown:
  "GetTopParticipants db_unknown (\<lambda>q. False) 1 10 =
     Inr [\<lparr>rs_Name = ''Runner A'', rs_TotalRuns = 2\<rparr>,
          \<lparr>rs_Name = ''Runner B'', rs_TotalRuns = 1\<rparr>]
   \<and> remdups (map (\<lambda>(r, e). name r) (joined db_unknown 1))
       = [''Runner A'', ''Unknown'', ''Runner B'']
   \<and> GetLocationStats parse_stored_date db_unknown (\<lambda>q. False) 1 =
       Inr \<lparr>first_event = MkTime 2023 1 1, last_event = MkTime 2023 1 8,
            biggest_event_date = ''2023-01-08 00:00:00+00:00'', biggest_event_count = 3,
            smallest_event_date = ''2023-01-01 00:00:00+00:00'', smallest_event_count = 2,
            total_events = 2, total_runners = 3, avg_participants = 5 / 2,
            stats_location_id = None\<rparr>"
proof -
  have j: "remdups (map (\<lambda>(r, e). name r) (joined db_unknown 1))
       = [''Runner A'', ''Unknown'', ''Runner B'']"
    unfolding db_unknown_tables by (simp add: joined_def)
  have top: "GetTopParticipants db_unknown (\<lambda>q. False) 1 10 =
     Inr [\<lparr>rs_Name = ''Runner A'', rs_TotalRuns = 2\<rparr>,
          \<lparr>rs_Name = ''Runner B'', rs_TotalRuns = 1\<rparr>]"
    unfolding GetTopParticipants_def db_unknown_tables by (simp add: joined_def Let_def)
  have pc: "participant_counts db_unknown 1 =
      [(''2023-01-01 00:00:00+00:00'', 2), (''2023-01-08 00:00:00+00:00'', 3)]"
    unfolding participant_counts_def db_unknown_tables by (simp add: joined_def Let_def)
  have stats: "GetLocationStats parse_stored_date db_unknown (\<lambda>q. False) 1 =
       Inr \<lparr>first_event = MkTime 2023 1 1, last_event = MkTime 2023 1 8,
            biggest_event_date = ''2023-01-08 00:00:00+00:00'', biggest_event_count = 3,
            smallest_event_date = ''2023-01-01 00:00:00+00:00'', smallest_event_count = 2,
            total_events = 2, total_runners = 3, avg_participants = 5 / 2,
            stats_location_id = None\<rparr>"
    unfolding GetLocationStats_def pc unfolding db_unknown_tables
    by (simp add: joined_def Let_def parse_defs)
  from top j stats show ?thesis by simp
qed

text \<open>What does hold: no database state makes the top-participants report list "Unknown".\<close>

lemma GetTopParticipants_no_unknown:
  assumes "GetTopParticipants db qf locationID limit = Inr stats"
  shows "''Unknown'' \<notin> rs_Name ` set stats"
proof
  let ?rows = "filter (\<lambda>(r, e). name r \<noteq> ''Unknown'') (joined db locationID)"
  let ?groups = "map (\<lambda>n. (n, int (length (filter (\<lambda>(r, e). name r = n) ?rows))))
                   (sort (remdups (map (\<lambda>(r, e). name r) ?rows)))"
  let ?ordered = "rev (sort_key snd ?groups)"
  let ?limited = "if limit < 0 then ?ordered else take (nat limit) ?ordered"
  assume "''Unknown'' \<in> rs_Name ` set stats"
  moreover from assms
  have "stats = map (\<lambda>(n, run_count). \<lparr>rs_Name = n, rs_TotalRuns = run_count\<rparr>) ?limited"
    unfolding GetTopParticipants_def Let_def by (simp split: if_splits)
  ultimately obtain g where g: "g \<in> set ?limited" "fst g = ''Unknown''"
    by (auto simp: case_prod_beta)
  have "set ?limited \<subseteq> set ?ordered"
    using set_take_subset [of "nat limit" ?ordered] by simp
  with g(1) have "g \<in> set ?groups" by auto
  then have "fst g \<in> set (map (\<lambda>(r, e). name r) ?rows)" by auto
  with g(2) show False by auto
qed

lemmas db_times_defs = db_times_def store_page_def event1_def run_defs

lemma go_div_nonneg: "0 \<le> a \<Longrightarrow> 0 < b \<Longrightarrow> go_div a b = a div b"
  by (cases "a = 0") (simp_all add: go_div_def)

lemma go_mod_nonneg: "0 \<le> a \<Longrightarrow> 0 < b \<Longrightarrow> go_mod a b = a mod b"
  by (simp add: go_mod_def go_div_nonneg minus_mult_div_eq_mod)

lemmas median_defs = GetMedianTimesByAgeCategory_def category_rows_def categoryTimes_def
  category_median_def secondsToTime_def joined_def List.map_filter_def Let_def
  go_div_nonneg go_mod_nonneg Itoa_def pad2_def

lemma category_rows_pos:
  "(c, t) \<in> set (category_rows db locationID) \<Longrightarrow> 0 < t \<and> c \<noteq> []"
  by (auto simp: category_rows_def List.map_filter_def split: option.splits if_splits)

lemma categoryTimes_pos:
  "t \<in> set (categoryTimes (category_rows db locationID) c) \<Longrightarrow> 0 < t"
  by (auto simp: categoryTimes_def dest: category_rows_pos)

lemma categoryTimes_nonempty:
  "c \<in> set (map fst rows) \<Longrightarrow> categoryTimes rows c \<noteq> []"
  by (auto simp: categoryTimes_def filter_empty_conv)

lemma category_median_sorted:
  assumes "\<forall>t \<in> set ts. 0 < t" and "ts \<noteq> []"
  shows "(odd (length ts) \<longrightarrow> category_median ts = ts ! (length ts div 2))
       \<and> (even (length ts) \<and> ts ! (length ts div 2 - 1) + ts ! (length ts div 2) \<le> maxInt64 \<longrightarrow>
            category_median ts = (ts ! (length ts div 2 - 1) + ts ! (length ts div 2)) div 2)"
proof -
  let ?n = "length ts"
  let ?sum = "ts ! (?n div 2 - 1) + ts ! (?n div 2)"
  from assms(2) have n: "0 < ?n" by simp
  have "?n div 2 < ?n" using n by arith
  moreover have "?n div 2 - 1 < ?n" using n by arith
  ultimately have "ts ! (?n div 2) \<in> set ts" "ts ! (?n div 2 - 1) \<in> set ts"
    by (simp_all del: length_greater_0_conv)
  with assms(1) have pos: "0 < ts ! (?n div 2)" "0 < ts ! (?n div 2 - 1)" by blast+
  have even: "category_median ts = ?sum div 2" if e: "even ?n" and b: "?sum \<le> maxInt64"
  proof -
    from pos b have "int64 ?sum = ?sum"
      by (intro int64_is_int64) (simp add: is_int64_def maxInt64_def)
    moreover from pos have "go_div ?sum 2 = ?sum div 2"
      by (intro go_div_nonneg) simp_all
    ultimately show ?thesis
      using n e by (simp add: category_median_def Let_def)
  qed
  have odd: "category_median ts = ts ! (?n div 2)" if "odd ?n"
    using that n by (auto simp: category_median_def Let_def)
  from even odd show ?thesis by blast
qed

lemma joined_result: "(r, e) \<in> set (joined db locationID) \<Longrightarrow> r \<in> set (results_tbl db)"
  by (auto simp: joined_def)

lemma set_map_filter:
  "set (List.map_filter f xs) = {y. \<exists>x \<in> set xs. f x = Some y}"
  by (induction xs) (auto split: option.splits)

lemma category_rows_iff:
  "(c, t) \<in> set (category_rows db locationID) \<longleftrightarrow>
   (\<exists>r e. (r, e) \<in> set (joined db locationID) \<and> age_category r = Some c
          \<and> time_seconds r = Some t \<and> 0 < t \<and> c \<noteq> [])"
proof
  assume "(c, t) \<in> set (category_rows db locationID)"
  then show "\<exists>r e. (r, e) \<in> set (joined db locationID) \<and> age_category r = Some c
          \<and> time_seconds r = Some t \<and> 0 < t \<and> c \<noteq> []"
    by (auto simp: category_rows_def set_map_filter split: option.splits if_splits)
next
  assume "\<exists>r e. (r, e) \<in> set (joined db locationID) \<and> age_category r = Some c
          \<and> time_seconds r = Some t \<and> 0 < t \<and> c \<noteq> []"
  then obtain r e where "(r, e) \<in> set (joined db locationID)" "age_category r = Some c"
    "time_seconds r = Some t" "0 < t" "c \<noteq> []" by blast
  then show "(c, t) \<in> set (category_rows db locationID)"
    by (force simp: category_rows_def set_map_filter)
qed

lemma category_rows_fst:
  "c \<in> fst ` set (category_rows db locationID) \<longleftrightarrow>
   (\<exists>r e t. (r, e) \<in> set (joined db locationID) \<and> age_category r = Some c \<and> c \<noteq> []
            \<and> time_seconds r = Some t \<and> 0 < t)"
proof
  assume "c \<in> fst ` set (category_rows db locationID)"
  then obtain t where "(c, t) \<in> set (category_rows db locationID)" by auto
  then show "\<exists>r e t. (r, e) \<in> set (joined db locationID) \<and> age_category r = Some c \<and> c \<noteq> []
            \<and> time_seconds r = Some t \<and> 0 < t"
    unfolding category_rows_iff by blast
next
  assume "\<exists>r e t. (r, e) \<in> set (joined db locationID) \<and> age_category r = Some c \<and> c \<noteq> []
            \<and> time_seconds r = Some t \<and> 0 < t"
  then obtain t where "(c, t) \<in> set (category_rows db locationID)"
    unfolding category_rows_iff by blast
  then show "c \<in> fst ` set (category_rows db locationID)" by force
qed

lemma median_stats:
  assumes "GetMedianTimesByAgeCategory db qf locationID = Inr stats"
  shows "stats =
     map (\<lambda>category.
            \<lparr>Category = category,
             Median = secondsToTime (category_median
                        (sort (categoryTimes (category_rows db locationID) category))),
             Count = int (length (sort (categoryTimes (category_rows db locationID) category)))\<rparr>)
       (sort (remdups (map fst (category_rows db locationID))))"
  using assms unfolding GetMedianTimesByAgeCategory_def Let_def
  by (simp split: if_splits)

lemma median_categories_list:
  assumes "GetMedianTimesByAgeCategory db qf locationID = Inr stats"
  shows "map Category stats = sort (remdups (map fst (category_rows db locationID)))"
  unfolding median_stats [OF assms] by (simp add: comp_def)

lemma median_categories:
  assumes "GetMedianTimesByAgeCategory db qf locationID = Inr stats"
  shows "set (map Category stats) = fst ` set (category_rows db locationID)"
  unfolding median_categories_list [OF assms] by simp

lemma median_entry:
  assumes "GetMedianTimesByAgeCategory db qf locationID = Inr stats" and "stat \<in> set stats"
  shows "let ts = sort (categoryTimes (category_rows db locationID) (Category stat));
             n = length ts
         in 0 < n \<and> Count stat = int n
            \<and> (odd n \<longrightarrow> Median stat = secondsToTime (ts ! (n div 2)))
            \<and> (even n \<and> ts ! (n div 2 - 1) + ts ! (n div 2) \<le> maxInt64 \<longrightarrow>
                 Median stat = secondsToTime ((ts ! (n div 2 - 1) + ts ! (n div 2)) div 2))"
proof -
  let ?rows = "category_rows db locationID"
  let ?f = "\<lambda>category.
      \<lparr>Category = category,
       Median = secondsToTime (category_median (sort (categoryTimes ?rows category))),
       Count = int (length (sort (categoryTimes ?rows category)))\<rparr>"
  from median_stats [OF assms(1)] have "stats = map ?f (sort (remdups (map fst ?rows)))" .
  with assms(2) have "stat \<in> ?f ` set (sort (remdups (map fst ?rows)))"
    by (simp only: set_map)
  then obtain c where c0: "c \<in> set (sort (remdups (map fst ?rows)))" and stat: "stat = ?f c"
    by (rule imageE)
  from c0 have c: "c \<in> set (map fst ?rows)" by simp
  let ?ts = "sort (categoryTimes ?rows c)"
  have ne: "?ts \<noteq> []"
    using categoryTimes_nonempty [OF c] by (metis length_sort length_0_conv)
  have pos: "\<forall>t \<in> set ?ts. 0 < t"
    using categoryTimes_pos by auto
  from category_median_sorted [OF pos ne] ne stat show ?thesis
    by (simp add: Let_def)
qed

text \<open>
  C3 (amended). When the query and the scan of its rows succeed,
  \<open>GetMedianTimesByAgeCategory\<close> reports one entry for every age category, in the order
  of the categories: a category is every non-empty \<open>age_category\<close> of a result of the
  location that has a positive time. With the category's positive times sorted in
  ascending order, the entry's count is their number; when that number is odd the median
  is the middle element; when it is even the median is the mean of the two central
  elements rounded down to a whole second (Go's integer division), provided their sum
  does not exceed the largest 64-bit integer. The median is reported as the text
  \<open>secondsToTime\<close> renders.
\<close>

theorem GetMedianTimesByAgeCategory_median:
  assumes "\<not> qf CategoryTimes" and "\<not> qf CategoryTimesScan"
  shows "\<exists>stats. GetMedianTimesByAgeCategory db qf locationID = Inr stats
     \<and> sorted (map Category stats) \<and> distinct (map Category stats)
     \<and> (\<forall>c. c \<in> set (map Category stats) \<longleftrightarrow>
            (\<exists>r e t. (r, e) \<in> set (joined db locationID) \<and> age_category r = Some c \<and> c \<noteq> []
                     \<and> time_seconds r = Some t \<and> 0 < t))
     \<and> (\<forall>stat \<in> set stats.
          let ts = sort (categoryTimes (category_rows db locationID) (Category stat));
              n = length ts
          in 0 < n \<and> Count stat = int n
             \<and> (odd n \<longrightarrow> Median stat = secondsToTime (ts ! (n div 2)))
             \<and> (even n \<and> ts ! (n div 2 - 1) + ts ! (n div 2) \<le> maxInt64 \<longrightarrow>
                  Median stat = secondsToTime ((ts ! (n div 2 - 1) + ts ! (n div 2)) div 2)))"
proof -
  from assms obtain stats where s: "GetMedianTimesByAgeCategory db qf locationID = Inr stats"
    by (simp add: GetMedianTimesByAgeCategory_def Let_def)
  have l: "map Category stats = sort (remdups (map fst (category_rows db locationID)))"
    by (rule median_categories_list [OF s])
  have 1: "sorted (map Category stats)" "distinct (map Category stats)"
    unfolding l by simp_all
  have 2: "\<forall>c. c \<in> set (map Category stats) \<longleftrightarrow>
            (\<exists>r e t. (r, e) \<in> set (joined db locationID) \<and> age_category r = Some c \<and> c \<noteq> []
                     \<and> time_seconds r = Some t \<and> 0 < t)"
    unfolding median_categories [OF s] category_rows_fst by simp
  have 3: "\<forall>stat \<in> set stats.
          let ts = sort (categoryTimes (category_rows db locationID) (Category stat));
              n = length ts
          in 0 < n \<and> Count stat = int n
             \<and> (odd n \<longrightarrow> Median stat = secondsToTime (ts ! (n div 2)))
             \<and> (even n \<and> ts ! (n div 2 - 1) + ts ! (n div 2) \<le> maxInt64 \<longrightarrow>
                  Median stat = secondsToTime ((ts ! (n div 2 - 1) + ts ! (n div 2)) div 2))"
    using median_entry [OF s] by blast
  from s 1 2 3 show ?thesis by blast
qed

text \<open>
  The examples of the specification: the times 1200, 1180, 1190 give "19:50" (1190
  seconds), the times 1180, 1190 give "19:45" (1185 seconds).
\<close>

theorem GetMedianTimesByAgeCategory_median_witness:
  "GetMedianTimesByAgeCategory (db_times [1200, 1180, 1190]) (\<lambda>q. False) 1 =
     Inr [\<lparr>Category = ''VM35-39'', Median = ''19:50'', Count = 3\<rparr>]
   \<and> sort (categoryTimes (category_rows (db_times [1200, 1180, 1190]) 1) ''VM35-39'')
       = [1180, 1190, 1200]
   \<and> secondsToTime 1190 = ''19:50''
   \<and> GetMedianTimesByAgeCategory (db_times [1190, 1180]) (\<lambda>q. False) 1 =
     Inr [\<lparr>Category = ''VM35-39'', Median = ''19:45'', Count = 2\<rparr>]
   \<and> sort (categoryTimes (category_rows (db_times [1190, 1180]) 1) ''VM35-39'') = [1180, 1190]
   \<and> 1180 + 1190 \<le> maxInt64
   \<and> secondsToTime ((1180 + 1190) div 2) = ''19:45''"
proof -
  have odd: "GetMedianTimesByAgeCategory (db_times [1200, 1180, 1190]) (\<lambda>q. False) 1 =
     Inr [\<lparr>Category = ''VM35-39'', Median = ''19:50'', Count = 3\<rparr>]"
    by (simp add: db_times_defs median_defs int64_def)
  have even: "GetMedianTimesByAgeCategory (db_times [1190, 1180]) (\<lambda>q. False) 1 =
     Inr [\<lparr>Category = ''VM35-39'', Median = ''19:45'', Count = 2\<rparr>]"
    by (simp add: db_times_defs median_defs int64_def)
  have t3: "sort (categoryTimes (category_rows (db_times [1200, 1180, 1190]) 1) ''VM35-39'')
       = [1180, 1190, 1200]"
    by (simp add: db_times_defs median_defs)
  have t2: "sort (categoryTimes (category_rows (db_times [1190, 1180]) 1) ''VM35-39'')
       = [1180, 1190]"
    by (simp add: db_times_defs median_defs)
  have b: "(1180::int) + 1190 \<le> maxInt64"
    by (simp add: maxInt64_def)
  from GetMedianTimesByAgeCategory_median [of "\<lambda>q. False" "db_times [1200, 1180, 1190]" 1]
    odd t3
  have "secondsToTime 1190 = ''19:50''" by (simp add: Let_def)
  moreover
  from GetMedianTimesByAgeCategory_median [of "\<lambda>q. False" "db_times [1190, 1180]" 1]
    even t2 b
  have "secondsToTime ((1180 + 1190) div 2) = ''19:45''" by (simp add: Let_def)
  ultimately show ?thesis using odd even t3 t2 b by simp
qed

text \<open>
  C3 as stated fails. For the times 1180 and 1191 the function reports "19:45", that is
  1185 seconds, while the arithmetic mean of the two is 1185.5 seconds. For two times of
  9223372036854775807 seconds the sum wraps to -2 and the function reports "0:-1". And
  when the driver fails the query the function reports no category at all.
\<close>

theorem median_mean_counterexample:
  "GetMedianTimesByAgeCategory (db_times [1191, 1180]) (\<lambda>q. False) 1 =
     Inr [\<lparr>Category = ''VM35-39'', Median = ''19:45'', Count = 2\<rparr>]
   \<and> sort (categoryTimes (category_rows (db_times [1191, 1180]) 1) ''VM35-39'') = [1180, 1191]
   \<and> category_median [1180, 1191] = 1185
   \<and> secondsToTime 1185 = ''19:45''
   \<and> spec_median [1180, 1191] = 2371 / 2
   \<and> spec_median [1180, 1191] \<noteq> of_int (category_median [1180, 1191])
   \<and> GetMedianTimesByAgeCategory
         (db_times [9223372036854775807, 9223372036854775807]) (\<lambda>q. False) 1 =
       Inr [\<lparr>Category = ''VM35-39'', Median = ''0:-1'', Count = 2\<rparr>]
   \<and> category_median [9223372036854775807, 9223372036854775807] = - 1
   \<and> spec_median [9223372036854775807, 9223372036854775807] = 9223372036854775807
   \<and> GetMedianTimesByAgeCategory (db_times [1200, 1180, 1190]) (\<lambda>q. q = CategoryTimes) 1
       = Inl (Errorf ''query error'')"
proof -
  have a: "GetMedianTimesByAgeCategory (db_times [1191, 1180]) (\<lambda>q. False) 1 =
     Inr [\<lparr>Category = ''VM35-39'', Median = ''19:45'', Count = 2\<rparr>]"
    by (simp add: db_times_defs median_defs int64_def)
  have b: "sort (categoryTimes (category_rows (db_times [1191, 1180]) 1) ''VM35-39'')
      = [1180, 1191]"
    by (simp add: db_times_defs median_defs)
  have c: "category_median [1180, 1191] = 1185" "secondsToTime 1185 = ''19:45''"
    "spec_median [1180, 1191] = 2371 / 2"
    "spec_median [1180, 1191] \<noteq> of_int (category_median [1180, 1191])"
    by (simp_all add: median_defs spec_median_def int64_def)
  have d: "category_median [9223372036854775807, 9223372036854775807] = - 1"
    by (simp add: category_median_def int64_def go_div_def)
  have e: "secondsToTime (- 1) = ''0:-1''"
    by (simp add: secondsToTime_def go_div_def go_mod_def Itoa_def pad2_def Let_def)
  have f: "GetMedianTimesByAgeCategory
         (db_times [9223372036854775807, 9223372036854775807]) (\<lambda>q. False) 1 =
       Inr [\<lparr>Category = ''VM35-39'', Median = ''0:-1'', Count = 2\<rparr>]"
    by (simp add: db_times_defs GetMedianTimesByAgeCategory_def category_rows_def
        categoryTimes_def joined_def List.map_filter_def Let_def d e)
  have g: "spec_median [9223372036854775807, 9223372036854775807] = 9223372036854775807"
    by (simp add: spec_median_def)
  have h: "GetMedianTimesByAgeCategory (db_times [1200, 1180, 1190]) (\<lambda>q. q = CategoryTimes) 1
       = Inl (Errorf ''query error'')"
    by (simp add: GetMedianTimesByAgeCategory_def Let_def)
  from a b c d f g h show ?thesis by simp
qed

text \<open>The two revisions differ on an even count: 1190 against 1185 for the times 1180, 1190.\<close>

lemma category_median_revisions:
  "category_median_earlier [1180, 1190] = 1190 \<and> category_median [1180, 1190] = 1185"
  by (simp add: category_median_earlier_def category_median_def go_div_nonneg int64_def)

section \<open>Proofs: the grouping of the reports\<close>

lemma group_stats_None:
  "group_stats stats acc = None \<longleftrightarrow> (\<exists>stat \<in> set stats. length (Category stat) < 2)"
proof (induction stats arbitrary: acc)
  case Nil
  then show ?case by (cases acc) simp
next
  case (Cons stat rest)
  then show ?case by (cases acc) (auto simp: Let_def)
qed

lemma group_categories_None:
  "group_categories cats acc = None \<longleftrightarrow> (\<exists>cat \<in> set cats. length cat < 2)"
proof (induction cats arbitrary: acc)
  case Nil
  then show ?case by (cases acc) auto
next
  case (Cons cat rest)
  show ?case
  proof (cases "length cat < 2")
    case True
    then show ?thesis by (cases acc) simp
  next
    case False
    have "\<And>acc'. group_categories rest acc' = None \<longleftrightarrow> (\<exists>c \<in> set rest. length c < 2)"
      by (rule Cons.IH)
    with False show ?thesis by (cases acc) (simp add: Let_def)
  qed
qed

text \<open>
  The categories that \<open>GetMedianTimesByAgeCategory\<close> returns hold one of fewer than two
  bytes exactly when a result of the location has a positive time and a category of one
  byte.
\<close>

lemma short_category:
  assumes "GetMedianTimesByAgeCategory db qf locationID = Inr stats"
  shows "(\<exists>stat \<in> set stats. length (Category stat) < 2) \<longleftrightarrow>
         (\<exists>r e c t. (r, e) \<in> set (joined db locationID) \<and> age_category r = Some c
                    \<and> time_seconds r = Some t \<and> 0 < t \<and> length c = 1)"
proof
  assume "\<exists>stat \<in> set stats. length (Category stat) < 2"
  then obtain stat where st: "stat \<in> set stats" "length (Category stat) < 2" by blast
  then have "Category stat \<in> set (map Category stats)" by simp
  with median_categories [OF assms]
  have "Category stat \<in> fst ` set (category_rows db locationID)" by simp
  then obtain r e t where "(r, e) \<in> set (joined db locationID)"
      "age_category r = Some (Category stat)" "Category stat \<noteq> []"
      "time_seconds r = Some t" "0 < t"
    unfolding category_rows_fst by blast
  moreover from this(3) st(2) have "length (Category stat) = 1"
    by (cases "Category stat") auto
  ultimately show "\<exists>r e c t. (r, e) \<in> set (joined db locationID) \<and> age_category r = Some c
                    \<and> time_seconds r = Some t \<and> 0 < t \<and> length c = 1"
    by blast
next
  assume "\<exists>r e c t. (r, e) \<in> set (joined db locationID) \<and> age_category r = Some c
                    \<and> time_seconds r = Some t \<and> 0 < t \<and> length c = 1"
  then obtain r e c t where h: "(r, e) \<in> set (joined db locationID)" "age_category r = Some c"
      "time_seconds r = Some t" "0 < t" "length c = 1" by blast
  from h(5) have "c \<noteq> []" by auto
  with h(1-4) have "c \<in> fst ` set (category_rows db locationID)"
    unfolding category_rows_fst by blast
  with median_categories [OF assms] have "c \<in> set (map Category stats)" by simp
  then obtain stat where "stat \<in> set stats" "Category stat = c" by auto
  with h(5) show "\<exists>stat \<in> set stats. length (Category stat) < 2"
    by (intro bexI [of _ stat]) simp_all
qed

lemma long_categories:
  assumes "categories_long db"
  shows "\<not> (\<exists>r e c t. (r, e) \<in> set (joined db locationID) \<and> age_category r = Some c
                    \<and> time_seconds r = Some t \<and> 0 < t \<and> length c = 1)"
proof
  assume "\<exists>r e c t. (r, e) \<in> set (joined db locationID) \<and> age_category r = Some c
                    \<and> time_seconds r = Some t \<and> 0 < t \<and> length c = 1"
  then obtain r e c where h: "(r, e) \<in> set (joined db locationID)" "age_category r = Some c"
      "length c = 1" by blast
  from h(3) have "c \<noteq> []" by auto
  with assms joined_result [OF h(1)] h(2) have "2 \<le> length c"
    unfolding categories_long_def by blast
  with h(3) show False by simp
qed

lemma getLocationStats_Inr:
  "getLocationStats tp db qf locationSlug = Inr s \<longleftrightarrow>
   \<not> qf LocationBySlug
   \<and> (\<exists>locationID stats. select_location_id db locationSlug = Inr locationID
          \<and> GetLocationStats tp db qf locationID = Inr stats
          \<and> s = stats\<lparr>stats_location_id := Some locationID\<rparr>)"
  by (auto simp: getLocationStats_def split: sum.splits)

lemma PrintReports_panic:
  "PrintReports tp db qf locationSlug = Panic \<longleftrightarrow>
   \<not> qf LocationBySlug
   \<and> (\<exists>locationID stats runners times'.
          select_location_id db locationSlug = Inr locationID
          \<and> GetLocationStats tp db qf locationID = Inr stats
          \<and> GetTopParticipants db qf locationID 10 = Inr runners
          \<and> GetMedianTimesByAgeCategory db qf locationID = Inr times'
          \<and> (\<exists>r e c t. (r, e) \<in> set (joined db locationID) \<and> age_category r = Some c
                \<and> time_seconds r = Some t \<and> 0 < t \<and> length c = 1))"
    (is "?L \<longleftrightarrow> ?R")
proof
  assume L: ?L
  then have q: "\<not> qf LocationBySlug"
    by (auto simp: PrintReports_def)
  with L obtain locationID where sel: "select_location_id db locationSlug = Inr locationID"
    by (cases "select_location_id db locationSlug")
      (auto simp: PrintReports_def split: if_splits)
  with L q obtain stats where st: "GetLocationStats tp db qf locationID = Inr stats"
    by (cases "GetLocationStats tp db qf locationID") (auto simp: PrintReports_def)
  with L q sel obtain runners where ru: "GetTopParticipants db qf locationID 10 = Inr runners"
    by (cases "GetTopParticipants db qf locationID 10") (auto simp: PrintReports_def)
  with L q sel st obtain times' where
    me: "GetMedianTimesByAgeCategory db qf locationID = Inr times'"
    by (cases "GetMedianTimesByAgeCategory db qf locationID") (auto simp: PrintReports_def)
  with L q sel st ru have "group_stats times' (\<lambda>g. [], \<lambda>g. []) = None"
    by (auto simp: PrintReports_def split: option.splits)
  then have "\<exists>stat \<in> set times'. length (Category stat) < 2"
    by (simp only: group_stats_None)
  with short_category [OF me] q sel st ru me show ?R by blast
next
  assume R: ?R
  then obtain locationID stats runners times' where
    h: "\<not> qf LocationBySlug" "select_location_id db locationSlug = Inr locationID"
      "GetLocationStats tp db qf locationID = Inr stats"
      "GetTopParticipants db qf locationID 10 = Inr runners"
      "GetMedianTimesByAgeCategory db qf locationID = Inr times'"
      "\<exists>r e c t. (r, e) \<in> set (joined db locationID) \<and> age_category r = Some c
                \<and> time_seconds r = Some t \<and> 0 < t \<and> length c = 1"
    by blast
  from h(6) short_category [OF h(5)] have "\<exists>stat \<in> set times'. length (Category stat) < 2"
    by blast
  then have "group_stats times' (\<lambda>g. [], \<lambda>g. []) = None"
    by (simp only: group_stats_None)
  with h(1-5) show ?L
    by (simp add: PrintReports_def)
qed

lemma PrintComparisonReport_panic:
  "PrintComparisonReport tp db qf location1 location2 = Panic \<longleftrightarrow>
   \<not> qf LocationBySlug
   \<and> (\<exists>id1 id2 s1 s2 times1 times2.
          select_location_id db location1 = Inr id1 \<and> GetLocationStats tp db qf id1 = Inr s1
          \<and> select_location_id db location2 = Inr id2 \<and> GetLocationStats tp db qf id2 = Inr s2
          \<and> GetMedianTimesByAgeCategory db qf id1 = Inr times1
          \<and> GetMedianTimesByAgeCategory db qf id2 = Inr times2
          \<and> (\<exists>r e c t. ((r, e) \<in> set (joined db id1) \<or> (r, e) \<in> set (joined db id2))
                \<and> age_category r = Some c \<and> time_seconds r = Some t \<and> 0 < t
                \<and> length c = 1))"
    (is "?L \<longleftrightarrow> ?R")
proof
  assume L: ?L
  then obtain g1 where g1: "getLocationStats tp db qf location1 = Inr g1"
    by (cases "getLocationStats tp db qf location1") (auto simp: PrintComparisonReport_def)
  with L obtain g2 where g2: "getLocationStats tp db qf location2 = Inr g2"
    by (cases "getLocationStats tp db qf location2") (auto simp: PrintComparisonReport_def)
  from g1 obtain id1 s1 where 1: "\<not> qf LocationBySlug" "select_location_id db location1 = Inr id1"
      "GetLocationStats tp db qf id1 = Inr s1" "stats_location_id g1 = Some id1"
    unfolding getLocationStats_Inr by auto
  from g2 obtain id2 s2 where 2: "select_location_id db location2 = Inr id2"
      "GetLocationStats tp db qf id2 = Inr s2" "stats_location_id g2 = Some id2"
    unfolding getLocationStats_Inr by auto
  from L g1 g2 1(4) obtain times1 where m1: "GetMedianTimesByAgeCategory db qf id1 = Inr times1"
    by (cases "GetMedianTimesByAgeCategory db qf id1") (auto simp: PrintComparisonReport_def)
  with L g1 g2 1(4) 2(3) obtain times2 where
    m2: "GetMedianTimesByAgeCategory db qf id2 = Inr times2"
    by (cases "GetMedianTimesByAgeCategory db qf id2") (auto simp: PrintComparisonReport_def)
  with L g1 g2 1(4) 2(3) m1
  have "group_categories (remdups (map Category (times1 @ times2))) ([], [], [], []) = None"
    by (auto simp: PrintComparisonReport_def Let_def split: option.splits)
  then have "\<exists>cat \<in> set (remdups (map Category (times1 @ times2))). length cat < 2"
    by (simp only: group_categories_None)
  then have "(\<exists>stat \<in> set times1. length (Category stat) < 2)
      \<or> (\<exists>stat \<in> set times2. length (Category stat) < 2)"
    by auto
  with short_category [OF m1] short_category [OF m2]
  have "\<exists>r e c t. ((r, e) \<in> set (joined db id1) \<or> (r, e) \<in> set (joined db id2))
                \<and> age_category r = Some c \<and> time_seconds r = Some t \<and> 0 < t
                \<and> length c = 1"
    by blast
  with 1(1-3) 2(1,2) m1 m2 show ?R by blast
next
  assume R: ?R
  then obtain id1 id2 s1 s2 times1 times2 where
    h: "\<not> qf LocationBySlug"
      "select_location_id db location1 = Inr id1" "GetLocationStats tp db qf id1 = Inr s1"
      "select_location_id db location2 = Inr id2" "GetLocationStats tp db qf id2 = Inr s2"
      "GetMedianTimesByAgeCategory db qf id1 = Inr times1"
      "GetMedianTimesByAgeCategory db qf id2 = Inr times2"
      "\<exists>r e c t. ((r, e) \<in> set (joined db id1) \<or> (r, e) \<in> set (joined db id2))
                \<and> age_category r = Some c \<and> time_seconds r = Some t \<and> 0 < t
                \<and> length c = 1"
    by blast
  from h(8) short_category [OF h(6)] short_category [OF h(7)]
  have "(\<exists>stat \<in> set times1. length (Category stat) < 2)
      \<or> (\<exists>stat \<in> set times2. length (Category stat) < 2)"
    by blast
  then have "\<exists>cat \<in> set (remdups (map Category (times1 @ times2))). length cat < 2"
    by auto
  then have "group_categories (remdups (map Category (times1 @ times2))) ([], [], [], []) = None"
    by (simp only: group_categories_None)
  with h(1-7) show ?L
    by (simp add: PrintComparisonReport_def getLocationStats_def Let_def)
qed

text \<open>
  C10 (amended). Neither report guards the two-byte slice of the category.
  \<open>PrintReports\<close> panics exactly when it gets as far as the grouping (the location is
  found, and its statistics, its top participants and its category medians are read
  without an error) and a result of an event of the location has a positive time and an
  age category of exactly one byte. \<open>PrintComparisonReport\<close> panics exactly when it gets
  as far for both locations and such a result belongs to either of them. So neither
  report panics when every stored age category that is neither NULL nor empty has at
  least two bytes.
\<close>

theorem report_grouping_panic:
  "(PrintReports tp db qf locationSlug = Panic \<longleftrightarrow>
      \<not> qf LocationBySlug
      \<and> (\<exists>locationID stats runners times'.
             select_location_id db locationSlug = Inr locationID
             \<and> GetLocationStats tp db qf locationID = Inr stats
             \<and> GetTopParticipants db qf locationID 10 = Inr runners
             \<and> GetMedianTimesByAgeCategory db qf locationID = Inr times'
             \<and> (\<exists>r e c t. (r, e) \<in> set (joined db locationID) \<and> age_category r = Some c
                   \<and> time_seconds r = Some t \<and> 0 < t \<and> length c = 1)))
   \<and> (PrintComparisonReport tp db qf location1 location2 = Panic \<longleftrightarrow>
      \<not> qf LocationBySlug
      \<and> (\<exists>id1 id2 s1 s2 times1 times2.
             select_location_id db location1 = Inr id1 \<and> GetLocationStats tp db qf id1 = Inr s1
             \<and> select_location_id db location2 = Inr id2
             \<and> GetLocationStats tp db qf id2 = Inr s2
             \<and> GetMedianTimesByAgeCategory db qf id1 = Inr times1
             \<and> GetMedianTimesByAgeCategory db qf id2 = Inr times2
             \<and> (\<exists>r e c t. ((r, e) \<in> set (joined db id1) \<or> (r, e) \<in> set (joined db id2))
                   \<and> age_category r = Some c \<and> time_seconds r = Some t \<and> 0 < t
                   \<and> length c = 1)))
   \<and> (categories_long db \<longrightarrow>
      PrintReports tp db qf locationSlug \<noteq> Panic
      \<and> PrintComparisonReport tp db qf location1 location2 \<noteq> Panic)"
proof (intro conjI impI)
  show "PrintReports tp db qf locationSlug = Panic \<longleftrightarrow>
      \<not> qf LocationBySlug
      \<and> (\<exists>locationID stats runners times'.
             select_location_id db locationSlug = Inr locationID
             \<and> GetLocationStats tp db qf locationID = Inr stats
             \<and> GetTopParticipants db qf locationID 10 = Inr runners
             \<and> GetMedianTimesByAgeCategory db qf locationID = Inr times'
             \<and> (\<exists>r e c t. (r, e) \<in> set (joined db locationID) \<and> age_category r = Some c
                   \<and> time_seconds r = Some t \<and> 0 < t \<and> length c = 1))"
    by (rule PrintReports_panic)
next
  show "PrintComparisonReport tp db qf location1 location2 = Panic \<longleftrightarrow>
      \<not> qf LocationBySlug
      \<and> (\<exists>id1 id2 s1 s2 times1 times2.
             select_location_id db location1 = Inr id1 \<and> GetLocationStats tp db qf id1 = Inr s1
             \<and> select_location_id db location2 = Inr id2
             \<and> GetLocationStats tp db qf id2 = Inr s2
             \<and> GetMedianTimesByAgeCategory db qf id1 = Inr times1
             \<and> GetMedianTimesByAgeCategory db qf id2 = Inr times2
             \<and> (\<exists>r e c t. ((r, e) \<in> set (joined db id1) \<or> (r, e) \<in> set (joined db id2))
                   \<and> age_category r = Some c \<and> time_seconds r = Some t \<and> 0 < t
                   \<and> length c = 1))"
    by (rule PrintComparisonReport_panic)
next
  assume "categories_long db"
  then show "PrintReports tp db qf locationSlug \<noteq> Panic"
    unfolding PrintReports_panic using long_categories by blast
next
  assume "categories_long db"
  then show "PrintComparisonReport tp db qf location1 location2 \<noteq> Panic"
    unfolding PrintComparisonReport_panic using long_categories by blast
qed

lemma db_short_tables:
  "db_short =
      \<lparr>locations_tbl =
         [\<lparr>loc_id = 1, slug = ''test-location'', loc_name = None, country = ''AUS''\<rparr>],
       events_tbl =
         [\<lparr>ev_id = 1, event_number = 1, location_id = 1,
           date = ''2023-01-01 00:00:00+00:00'', url = ''http://example.com/1''\<rparr>],
       results_tbl =
         [\<lparr>res_id = 1, position = 1, name = ''Runner A'', time_seconds = Some 1200,
           age_grade = Some ''65.5%'', age_category = Some ''M'', res_note = Some [],
           total_runs = Some 10, event_id = Some 1\<rparr>],
       seq_locations = 1, seq_events = 1, seq_results = 1\<rparr>"
  by (simp add: db_short_def short_runner_def store_page_def event1_def run_defs)

text \<open>
  One stored result of category "M" with a time of 1200 seconds: both reports panic.
  The database with the category "VM35-39" in its place satisfies the precondition, and
  the reports do not panic.
\<close>

theorem report_grouping_panic_witness:
  "categories_long (db_times [1200])
   \<and> PrintReports parse_stored_date (db_times [1200]) (\<lambda>q. False) ''test-location'' \<noteq> Panic
   \<and> PrintComparisonReport parse_stored_date (db_times [1200]) (\<lambda>q. False)
       ''test-location'' ''nowhere'' \<noteq> Panic
   \<and> \<not> categories_long db_short
   \<and> PrintReports parse_stored_date db_short (\<lambda>q. False) ''test-location'' = Panic
   \<and> PrintComparisonReport parse_stored_date db_short (\<lambda>q. False)
       ''test-location'' ''test-location'' = Panic"
proof -
  let ?r = "\<lparr>res_id = 1, position = 1, name = ''Runner A'', time_seconds = Some 1200,
           age_grade = Some ''65.5%'', age_category = Some ''M'', res_note = Some [],
           total_runs = Some 10, event_id = Some 1\<rparr>"
  let ?e = "\<lparr>ev_id = 1, event_number = 1, location_id = 1,
           date = ''2023-01-01 00:00:00+00:00'', url = ''http://example.com/1''\<rparr>"
  have long: "categories_long (db_times [1200])"
    by (simp add: categories_long_def db_times_defs)
  have short: "\<not> categories_long db_short"
    unfolding db_short_tables by (simp add: categories_long_def)
  have sel: "select_location_id db_short ''test-location'' = Inr 1"
    unfolding db_short_tables by (simp add: select_location_id_def)
  have j: "joined db_short 1 = [(?r, ?e)]"
    unfolding db_short_tables by (simp add: joined_def)
  have pc: "participant_counts db_short 1 = [(''2023-01-01 00:00:00+00:00'', 1)]"
    unfolding participant_counts_def j by (simp add: Let_def)
  have stats: "GetLocationStats parse_stored_date db_short (\<lambda>q. False) 1 =
       Inr \<lparr>first_event = MkTime 2023 1 1, last_event = MkTime 2023 1 1,
            biggest_event_date = ''2023-01-01 00:00:00+00:00'', biggest_event_count = 1,
            smallest_event_date = ''2023-01-01 00:00:00+00:00'', smallest_event_count = 1,
            total_events = 1, total_runners = 1, avg_participants = 1,
            stats_location_id = None\<rparr>"
    unfolding GetLocationStats_def pc j unfolding db_short_tables
    by (simp add: Let_def parse_defs)
  have top: "GetTopParticipants db_short (\<lambda>q. False) 1 10 =
      Inr [\<lparr>rs_Name = ''Runner A'', rs_TotalRuns = 1\<rparr>]"
    unfolding GetTopParticipants_def j by (simp add: Let_def)
  have med: "GetMedianTimesByAgeCategory db_short (\<lambda>q. False) 1 =
      Inr [\<lparr>Category = ''M'', Median = ''20:00'', Count = 1\<rparr>]"
    unfolding GetMedianTimesByAgeCategory_def category_rows_def j
    by (simp add: categoryTimes_def category_median_def secondsToTime_def List.map_filter_def
        Let_def go_div_nonneg go_mod_nonneg Itoa_def pad2_def)
  have mem: "\<exists>r e c t. (r, e) \<in> set (joined db_short 1) \<and> age_category r = Some c
      \<and> time_seconds r = Some t \<and> 0 < t \<and> length c = 1"
    unfolding j by simp
  note T = report_grouping_panic [where tp = parse_stored_date and qf = "\<lambda>q. False"]
  have 1: "PrintReports parse_stored_date (db_times [1200]) (\<lambda>q. False) ''test-location''
      \<noteq> Panic"
    using T [where db = "db_times [1200]" and locationSlug = "''test-location''",
        THEN conjunct2, THEN conjunct2] long by simp
  have 2: "PrintComparisonReport parse_stored_date (db_times [1200]) (\<lambda>q. False)
      ''test-location'' ''nowhere'' \<noteq> Panic"
    using T [where db = "db_times [1200]" and ?location1.0 = "''test-location''"
        and ?location2.0 = "''nowhere''", THEN conjunct2, THEN conjunct2] long by simp
  have 3: "PrintReports parse_stored_date db_short (\<lambda>q. False) ''test-location'' = Panic"
    using T [where db = db_short and locationSlug = "''test-location''", THEN conjunct1]
      sel stats top med mem
    by simp
  have 4: "PrintComparisonReport parse_stored_date db_short (\<lambda>q. False)
      ''test-location'' ''test-location'' = Panic"
    using T [where db = db_short and ?location1.0 = "''test-location''"
        and ?location2.0 = "''test-location''", THEN conjunct2, THEN conjunct1]
      sel stats med mem
    by simp
  from long short 1 2 3 4 show ?thesis by simp
qed

lemma db_untimed_tables:
  "db_untimed =
      \<lparr>locations_tbl =
         [\<lparr>loc_id = 1, slug = ''test-location'', loc_name = None, country = ''AUS''\<rparr>],
       events_tbl =
         [\<lparr>ev_id = 1, event_number = 1, location_id = 1,
           date = ''2023-01-01 00:00:00+00:00'', url = ''http://example.com/1''\<rparr>],
       results_tbl =
         [\<lparr>res_id = 1, position = 1, name = ''Runner A'', time_seconds = Some 1200,
           age_grade = Some ''65.5%'', age_category = Some ''VM35-39'', res_note = Some [],
           total_runs = Some 10, event_id = Some 1\<rparr>,
          \<lparr>res_id = 2, position = 2, name = ''Runner C'', time_seconds = None,
           age_grade = Some [], age_category = Some ''M'', res_note = Some [],
           total_runs = Some 1, event_id = Some 1\<rparr>],
       seq_locations = 1, seq_events = 1, seq_results = 2\<rparr>"
  by (simp add: db_untimed_def runnerA_def untimed_runner_def store_page_def event1_def
      run_defs)

text \<open>
  C10 as stated fails. A stored result of category "M" whose time is NULL breaks the
  precondition, and the database holds a result whose category is one byte long; yet the
  query of the medians leaves that result out, no slice is out of range, and both reports
  run to their end.
\<close>

theorem report_untimed_counterexample:
  "\<not> categories_long db_untimed
   \<and> map (\<lambda>r. (name r, age_category r, time_seconds r)) (results_tbl db_untimed)
       = [(''Runner A'', Some ''VM35-39'', Some 1200), (''Runner C'', Some ''M'', None)]
   \<and> PrintReports parse_stored_date db_untimed (\<lambda>q. False) ''test-location'' =
       Ok \<lparr>report_stats =
             \<lparr>first_event = MkTime 2023 1 1, last_event = MkTime 2023 1 1,
              biggest_event_date = ''2023-01-01 00:00:00+00:00'', biggest_event_count = 2,
              smallest_event_date = ''2023-01-01 00:00:00+00:00'', smallest_event_count = 2,
              total_events = 1, total_runners = 2, avg_participants = 2,
              stats_location_id = None\<rparr>,
           report_runners =
             [\<lparr>rs_Name = ''Runner C'', rs_TotalRuns = 1\<rparr>,
              \<lparr>rs_Name = ''Runner A'', rs_TotalRuns = 1\<rparr>],
           report_groups =
             [(''Men'', ''20:00'',
               [\<lparr>Category = ''VM35-39'', Median = ''20:00'', Count = 1\<rparr>])]\<rparr>
   \<and> (\<exists>c. PrintComparisonReport parse_stored_date db_untimed (\<lambda>q. False)
             ''test-location'' ''test-location'' = Ok c
          \<and> males_lines c = [(''VM35-39'', ''20:00'', ''20:00'')]
          \<and> others_lines c = [])"
proof -
  have short: "\<not> categories_long db_untimed"
    unfolding db_untimed_tables by (simp add: categories_long_def)
  have rows: "map (\<lambda>r. (name r, age_category r, time_seconds r)) (results_tbl db_untimed)
       = [(''Runner A'', Some ''VM35-39'', Some 1200), (''Runner C'', Some ''M'', None)]"
    unfolding db_untimed_tables by simp
  have sel: "select_location_id db_untimed ''test-location'' = Inr 1"
    unfolding db_untimed_tables by (simp add: select_location_id_def)
  have pc: "participant_counts db_untimed 1 = [(''2023-01-01 00:00:00+00:00'', 2)]"
    unfolding participant_counts_def db_untimed_tables by (simp add: joined_def Let_def)
  have stats: "GetLocationStats parse_stored_date db_untimed (\<lambda>q. False) 1 =
       Inr \<lparr>first_event = MkTime 2023 1 1, last_event = MkTime 2023 1 1,
              biggest_event_date = ''2023-01-01 00:00:00+00:00'', biggest_event_count = 2,
              smallest_event_date = ''2023-01-01 00:00:00+00:00'', smallest_event_count = 2,
              total_events = 1, total_runners = 2, avg_participants = 2,
              stats_location_id = None\<rparr>"
    unfolding GetLocationStats_def pc unfolding db_untimed_tables
    by (simp add: joined_def Let_def parse_defs)
  have top: "GetTopParticipants db_untimed (\<lambda>q. False) 1 10 =
      Inr [\<lparr>rs_Name = ''Runner C'', rs_TotalRuns = 1\<rparr>,
           \<lparr>rs_Name = ''Runner A'', rs_TotalRuns = 1\<rparr>]"
    unfolding GetTopParticipants_def db_untimed_tables by (simp add: joined_def Let_def)
  have med: "GetMedianTimesByAgeCategory db_untimed (\<lambda>q. False) 1 =
      Inr [\<lparr>Category = ''VM35-39'', Median = ''20:00'', Count = 1\<rparr>]"
    unfolding db_untimed_tables by (simp add: median_defs)
  have rep: "PrintReports parse_stored_date db_untimed (\<lambda>q. False) ''test-location'' =
       Ok \<lparr>report_stats =
             \<lparr>first_event = MkTime 2023 1 1, last_event = MkTime 2023 1 1,
              biggest_event_date = ''2023-01-01 00:00:00+00:00'', biggest_event_count = 2,
              smallest_event_date = ''2023-01-01 00:00:00+00:00'', smallest_event_count = 2,
              total_events = 1, total_runners = 2, avg_participants = 2,
              stats_location_id = None\<rparr>,
           report_runners =
             [\<lparr>rs_Name = ''Runner C'', rs_TotalRuns = 1\<rparr>,
              \<lparr>rs_Name = ''Runner A'', rs_TotalRuns = 1\<rparr>],
           report_groups =
             [(''Men'', ''20:00'',
               [\<lparr>Category = ''VM35-39'', Median = ''20:00'', Count = 1\<rparr>])]\<rparr>"
    by (simp add: PrintReports_def sel stats top med group_of_prefix_def Let_def
        calculateMedianTime_def)
  have cmp: "\<exists>c. PrintComparisonReport parse_stored_date db_untimed (\<lambda>q. False)
             ''test-location'' ''test-location'' = Ok c
          \<and> males_lines c = [(''VM35-39'', ''20:00'', ''20:00'')]
          \<and> others_lines c = []"
    by (simp add: PrintComparisonReport_def getLocationStats_def sel stats med Let_def
        printCategoryComparisons_def)
  from short rows rep cmp show ?thesis by simp
qed

end
